theory Spec2Isabelle
  imports Main "HOL-Library.Word"
begin

section \<open>Addresses and their base-58 text\<close>

text \<open>
  An address (\<open>PublicKey\<close> of the RPC client library) is a sequence of bytes, 32 of them
  for every key the library constructs. \<open>toBuffer\<close> gives the bytes, \<open>toBase58\<close> their
  canonical text. Nothing below depends on the length being 32.
\<close>

type_synonym byte = "8 word"
type_synonym Buffer = "byte list"

datatype PublicKey = PublicKey (toBuffer: Buffer)

text \<open>
  Base-58 as the client library's \<open>bs58\<close> codec computes it: every leading zero byte is
  the character \<open>1\<close>, the remaining bytes are one big-endian number written in base 58
  with the alphabet below. Decoding rejects a character outside the alphabet.
\<close>

definition ALPHABET :: string where
  "ALPHABET = ''123456789ABCDEFGHJKLMNPQRSTUVWXYZabcdefghijkmnopqrstuvwxyz''"

function to_digits :: "nat \<Rightarrow> nat \<Rightarrow> nat list" where
  "to_digits b n = (if n = 0 \<or> b < 2 then [] else to_digits b (n div b) @ [n mod b])"
  by pat_completeness auto
termination
  by (relation "measure (\<lambda>(b, n). n)") auto

declare to_digits.simps [simp del]

definition from_digits :: "nat \<Rightarrow> nat list \<Rightarrow> nat" where
  "from_digits b ds = foldl (\<lambda>acc d. acc * b + d) 0 ds"

definition digit_of :: "char \<Rightarrow> nat" where
  "digit_of c = length (takeWhile (\<lambda>a. a \<noteq> c) ALPHABET)"

definition bs58_encode :: "Buffer \<Rightarrow> string" where
  "bs58_encode source =
     (let zeroes = length (takeWhile (\<lambda>x. x = 0) source);
          n = from_digits 256 (map unat source)
      in replicate zeroes (CHR ''1'') @ map (\<lambda>d. ALPHABET ! d) (to_digits 58 n))"

definition bs58_decode :: "string \<Rightarrow> Buffer option" where
  "bs58_decode source =
     (if list_all (\<lambda>c. c \<in> set ALPHABET) source
      then (let zeroes = length (takeWhile (\<lambda>c. c = CHR ''1'') source);
                n = from_digits 58 (map digit_of source)
            in Some (replicate zeroes 0 @ map of_nat (to_digits 256 n)))
      else None)"

definition toBase58 :: "PublicKey \<Rightarrow> string" where
  "toBase58 key = bs58_encode (toBuffer key)"


section \<open>The remote endpoint\<close>

text \<open>
  The two calls of the RPC surface that the bindings use: reading one account by address
  and scanning the accounts of a program with byte filters. A \<open>MemcmpFilter\<close> carries an
  offset and the bytes to compare, and the RPC interface takes those bytes \<^emph>\<open>as base-58
  text\<close>: the owner filters of the queries put \<open>owner.toBase58()\<close> in that field, and
  the one-character patterns beside them are text of the same kind.
\<close>

record AccountInfo =
  info_owner :: PublicKey
  info_data :: Buffer

record MemcmpFilter =
  offset :: nat
  bytes :: string

datatype rpc_request =
    GetAccountInfo PublicKey
  | GetProgramAccounts PublicKey "MemcmpFilter list"

datatype error =
    TransportError string
  | AccountNotFound
  | DecodeError string
  | AssertionError string

text \<open>
  The steps of an operation that can raise an error: a request to the endpoint, finding the
  account in the answer, decoding its bytes as an account of one of the four classes,
  wrapping a number with \<open>new BN\<close>, and deriving an associated token address.
\<close>

datatype account_class = CentralStateClass | StakePoolClass | StakeAccountClass | BondAccountClass

datatype step =
    Request rpc_request
  | Lookup PublicKey
  | Decode account_class PublicKey
  | Convert int
  | AssociatedAddress PublicKey PublicKey PublicKey PublicKey

text \<open>
  A connection to the endpoint: the accounts the endpoint holds (the remote account state),
  the transport failure it answers a request with, if any, the journal of the requests
  sent through the connection so far, and the record of the errors raised so far, each with
  the step that raised it.
\<close>

record Connection =
  accounts :: "(PublicKey \<times> AccountInfo) list"
  outage :: "rpc_request \<Rightarrow> error option"
  journal :: "rpc_request list"
  raised :: "(step \<times> error) list"

text \<open>
  An \<open>async\<close> function is a computation over the connection that ends with a value or
  with the error it throws. \<open>await\<close> runs the continuation on the value and lets a
  thrown error through: the source has no \<open>try\<close>/\<open>catch\<close>.
\<close>

type_synonym 'a promise = "Connection \<Rightarrow> (error + 'a) \<times> Connection"

definition resolve :: "'a \<Rightarrow> 'a promise" where
  "resolve x c = (Inr x, c)"

definition reject :: "step \<Rightarrow> error \<Rightarrow> 'a promise" where
  "reject s e c = (Inl e, c\<lparr>raised := raised c @ [(s, e)]\<rparr>)"

definition await :: "'a promise \<Rightarrow> ('a \<Rightarrow> 'b promise) \<Rightarrow> 'b promise" where
  "await m f c = (case m c of (Inl e, c') \<Rightarrow> (Inl e, c') | (Inr x, c') \<Rightarrow> f x c')"

definition accountRead :: "Connection \<Rightarrow> PublicKey \<Rightarrow> error + AccountInfo option" where
  "accountRead c publicKey =
     (case outage c (GetAccountInfo publicKey) of
        Some e \<Rightarrow> Inl e
      | None \<Rightarrow> Inr (map_of (accounts c) publicKey))"

definition getAccountInfo :: "PublicKey \<Rightarrow> AccountInfo option promise" where
  "getAccountInfo publicKey c =
     (case accountRead c publicKey of
        Inl e \<Rightarrow> reject (Request (GetAccountInfo publicKey)) e
      | Inr accountInfo \<Rightarrow> resolve accountInfo)
     (c\<lparr>journal := journal c @ [GetAccountInfo publicKey]\<rparr>)"

text \<open>The bytes a filter compares with, and the endpoint's comparison at the offset.\<close>

definition filter_pattern :: "MemcmpFilter \<Rightarrow> Buffer option" where
  "filter_pattern f = bs58_decode (bytes f)"

definition memcmp :: "Buffer \<Rightarrow> MemcmpFilter \<Rightarrow> bool" where
  "memcmp account_data f =
     (case filter_pattern f of
        None \<Rightarrow> False
      | Some pattern \<Rightarrow> take (length pattern) (drop (offset f) account_data) = pattern)"

definition programScan ::
  "Connection \<Rightarrow> PublicKey \<Rightarrow> MemcmpFilter list \<Rightarrow> error + (PublicKey \<times> AccountInfo) list" where
  "programScan c programId filters =
     (case outage c (GetProgramAccounts programId filters) of
        Some e \<Rightarrow> Inl e
      | None \<Rightarrow>
          if list_all (\<lambda>f. filter_pattern f \<noteq> None) filters
          then Inr (filter (\<lambda>(key, info). info_owner info = programId \<and> list_all (memcmp (info_data info)) filters)
                      (accounts c))
          else Inl (TransportError ''Invalid param: bytes''))"

definition getProgramAccounts ::
  "PublicKey \<Rightarrow> MemcmpFilter list \<Rightarrow> (PublicKey \<times> AccountInfo) list promise" where
  "getProgramAccounts programId filters c =
     (case programScan c programId filters of
        Inl e \<Rightarrow> reject (Request (GetProgramAccounts programId filters)) e
      | Inr found \<Rightarrow> resolve found)
     (c\<lparr>journal := journal c @ [GetProgramAccounts programId filters]\<rparr>)"

text \<open>The requests a computation sends and the errors raised while it runs.\<close>

definition new_requests :: "'a promise \<Rightarrow> Connection \<Rightarrow> rpc_request list" where
  "new_requests m c = drop (length (journal c)) (journal (snd (m c)))"

definition failures :: "'a promise \<Rightarrow> Connection \<Rightarrow> (step \<times> error) list" where
  "failures m c = drop (length (raised c)) (raised (snd (m c)))"


section \<open>The modules the bindings import\<close>

text \<open>
  The bindings import the account classes (\<open>state\<close>), the instruction classes
  (\<open>raw_instructions\<close>) and constants of the client libraries. What the builders use of
  them is taken as a parameter: the decoded fields they read, the address derivations, the
  account decoders, the payload encoder and the program addresses. An address derivation
  (\<open>getKey\<close>) takes no connection: it computes an address and a nonce from the program
  address and the seeds. The derivation of an associated token address is a library call
  that may throw (some versions of the token library refuse an owner that is itself a
  derived address).
\<close>

record CentralState =
  CentralState_authority :: PublicKey
  CentralState_tokenMint :: PublicKey

record StakePool =
  StakePool_owner :: PublicKey
  StakePool_vault :: PublicKey

record StakeAccount =
  StakeAccount_owner :: PublicKey
  StakeAccount_stakePool :: PublicKey

record BondAccount =
  BondAccount_owner :: PublicKey
  BondAccount_stakePool :: PublicKey
  BondAccount_sellerTokenAccount :: PublicKey

text \<open>
  An instruction descriptor: the program, the ordered account references and the payload.
  (The signer and writable marks of a reference are constants of each instruction class
  and are not represented.)
\<close>

record TransactionInstruction =
  ix_programId :: PublicKey
  ix_keys :: "PublicKey list"
  ix_data :: Buffer

text \<open>
  A numeric argument is a JavaScript \<open>number\<close>, taken here at its integer value, that the
  builder wraps with \<open>new BN\<close>. The big-number constructor asserts that the magnitude of
  a number is below \<open>2^53\<close> and throws otherwise.
\<close>

definition BN :: "int \<Rightarrow> error + int" where
  "BN number =
     (if \<bar>number\<bar> < 2 ^ 53 then Inr number else Inl (AssertionError ''Assertion failed''))"

definition new_BN :: "int \<Rightarrow> int promise" where
  "new_BN number =
     (case BN number of
        Inl e \<Rightarrow> reject (Convert number) e
      | Inr bn \<Rightarrow> resolve bn)"

text \<open>The instruction classes with the fields their constructors are given.\<close>

datatype raw_instruction =
    changeInflationInstruction int
  | changePoolMinimumInstruction int
  | claimBondRewardsInstruction
  | claimBondInstruction
  | claimPoolRewardsInstruction
  | claimRewardsInstruction
  | closeStakeAccountInstruction
  | closeStakePoolInstruction
  | crankInstruction
  | createBondInstruction Buffer int int Buffer Buffer int int int int int
  | createCentralStateInstruction int Buffer
  | createStakeAccountInstruction nat Buffer
  | createStakePoolInstruction nat string Buffer int Buffer
  | signBondInstruction int
  | stakeInstruction int
  | unlockBondTokensInstruction
  | unstakeInstruction int
  | adminMintInstruction int

record deps =
  ACCESS_PROGRAM_ID :: PublicKey
  TOKEN_PROGRAM_ID :: PublicKey
  ASSOCIATED_TOKEN_PROGRAM_ID :: PublicKey
  SystemProgram_programId :: PublicKey
  CentralState_getKey :: "PublicKey \<Rightarrow> PublicKey \<times> nat"
  StakePool_getKey :: "PublicKey \<Rightarrow> PublicKey \<Rightarrow> PublicKey \<Rightarrow> PublicKey \<times> nat"
  StakeAccount_getKey :: "PublicKey \<Rightarrow> PublicKey \<Rightarrow> PublicKey \<Rightarrow> PublicKey \<times> nat"
  BondAccount_getKey :: "PublicKey \<Rightarrow> PublicKey \<Rightarrow> int \<Rightarrow> PublicKey \<times> nat"
  CentralState_deserialize :: "Buffer \<Rightarrow> error + CentralState"
  StakePool_deserialize :: "Buffer \<Rightarrow> error + StakePool"
  StakeAccount_deserialize :: "Buffer \<Rightarrow> error + StakeAccount"
  BondAccount_deserialize :: "Buffer \<Rightarrow> error + BondAccount"
  serialize :: "raw_instruction \<Rightarrow> Buffer"
  Token_getAssociatedTokenAddress ::
    "PublicKey \<Rightarrow> PublicKey \<Rightarrow> PublicKey \<Rightarrow> PublicKey \<Rightarrow> error + PublicKey"
  Token_createAssociatedTokenAccountInstruction ::
    "PublicKey \<Rightarrow> PublicKey \<Rightarrow> PublicKey \<Rightarrow> PublicKey \<Rightarrow> PublicKey \<Rightarrow> PublicKey
       \<Rightarrow> TransactionInstruction"

text \<open>
  Modelled from the spec: \<open>retrieve\<close> of the account classes (module \<open>state\<close>), which
  "fetches an account's current decoded fields" with the RPC call "get single account bytes
  by address" and fails with "whatever error the remote read or decode raises (e.g., account
  not found, decode-length mismatch)".
\<close>

definition retrieve ::
  "account_class \<Rightarrow> (Buffer \<Rightarrow> error + 'a) \<Rightarrow> PublicKey \<Rightarrow> 'a promise" where
  "retrieve cls deserialize key =
     await (getAccountInfo key) (\<lambda>accountInfo.
       case accountInfo of
         None \<Rightarrow> reject (Lookup key) AccountNotFound
       | Some info \<Rightarrow>
           (case deserialize (info_data info) of
              Inl e \<Rightarrow> reject (Decode cls key) e
            | Inr decoded \<Rightarrow> resolve decoded))"

definition CentralState_retrieve :: "deps \<Rightarrow> PublicKey \<Rightarrow> CentralState promise" where
  "CentralState_retrieve d key = retrieve CentralStateClass (CentralState_deserialize d) key"

definition StakePool_retrieve :: "deps \<Rightarrow> PublicKey \<Rightarrow> StakePool promise" where
  "StakePool_retrieve d key = retrieve StakePoolClass (StakePool_deserialize d) key"

definition StakeAccount_retrieve :: "deps \<Rightarrow> PublicKey \<Rightarrow> StakeAccount promise" where
  "StakeAccount_retrieve d key = retrieve StakeAccountClass (StakeAccount_deserialize d) key"

definition BondAccount_retrieve :: "deps \<Rightarrow> PublicKey \<Rightarrow> BondAccount promise" where
  "BondAccount_retrieve d key = retrieve BondAccountClass (BondAccount_deserialize d) key"

definition getAssociatedTokenAddress ::
  "deps \<Rightarrow> PublicKey \<Rightarrow> PublicKey \<Rightarrow> PublicKey \<Rightarrow> PublicKey \<Rightarrow> PublicKey promise" where
  "getAssociatedTokenAddress d associatedProgramId programId mint owner =
     (case Token_getAssociatedTokenAddress d associatedProgramId programId mint owner of
        Inl e \<Rightarrow> reject (AssociatedAddress associatedProgramId programId mint owner) e
      | Inr address \<Rightarrow> resolve address)"

text \<open>
  Modelled from the spec: \<open>getInstruction\<close> of the instruction classes (module
  \<open>raw_instructions\<close>), which "packs the numeric/string arguments into a fixed binary
  layout, and returns an ordered account-reference list plus the payload".
\<close>

definition getInstruction ::
  "deps \<Rightarrow> raw_instruction \<Rightarrow> PublicKey \<Rightarrow> PublicKey list \<Rightarrow> TransactionInstruction" where
  "getInstruction d ix programId keys =
     \<lparr>ix_programId = programId, ix_keys = keys, ix_data = serialize d ix\<rparr>"


section \<open>The instruction builders (bindings)\<close>

definition changeInflation :: "deps \<Rightarrow> int \<Rightarrow> PublicKey \<Rightarrow> TransactionInstruction promise" where
  "changeInflation d newInflation programId =
     (let centralKey = fst (CentralState_getKey d programId) in
      await (CentralState_retrieve d centralKey) (\<lambda>centralState.
      await (new_BN newInflation) (\<lambda>dailyInflationBN.
      let ix = getInstruction d (changeInflationInstruction dailyInflationBN)
                 programId [centralKey, CentralState_authority centralState]
      in resolve ix)))"

definition changePoolMinimum ::
  "deps \<Rightarrow> PublicKey \<Rightarrow> int \<Rightarrow> PublicKey \<Rightarrow> TransactionInstruction promise" where
  "changePoolMinimum d stakePoolKey newMinimum programId =
     await (StakePool_retrieve d stakePoolKey) (\<lambda>stakePool.
     await (new_BN newMinimum) (\<lambda>newMinimumBN.
     let ix = getInstruction d (changePoolMinimumInstruction newMinimumBN)
                programId [stakePoolKey, StakePool_owner stakePool]
     in resolve ix))"

definition claimBondRewards ::
  "deps \<Rightarrow> PublicKey \<Rightarrow> PublicKey \<Rightarrow> PublicKey \<Rightarrow> TransactionInstruction promise" where
  "claimBondRewards d bondAccount rewardsDestination programId =
     (let centralKey = fst (CentralState_getKey d programId) in
      await (CentralState_retrieve d centralKey) (\<lambda>centralState.
      await (BondAccount_retrieve d bondAccount) (\<lambda>bond.
      let ix = getInstruction d claimBondRewardsInstruction programId
                 [BondAccount_stakePool bond, bondAccount, BondAccount_owner bond,
                  rewardsDestination, centralKey, CentralState_tokenMint centralState,
                  TOKEN_PROGRAM_ID d]
      in resolve ix)))"

definition claimBond ::
  "deps \<Rightarrow> PublicKey \<Rightarrow> PublicKey \<Rightarrow> PublicKey \<Rightarrow> PublicKey \<Rightarrow> TransactionInstruction promise" where
  "claimBond d bondAccount buyer quoteTokenSource programId =
     await (BondAccount_retrieve d bondAccount) (\<lambda>bond.
     let ix = getInstruction d claimBondInstruction programId
                [bondAccount, buyer, quoteTokenSource, BondAccount_sellerTokenAccount bond,
                 TOKEN_PROGRAM_ID d]
     in resolve ix)"

text \<open>
  \<open>claimPoolRewards\<close> builds its instruction as the other builders do and ends without a
  \<open>return\<close>: its promise resolves to no value.
\<close>

definition claimPoolRewards ::
  "deps \<Rightarrow> PublicKey \<Rightarrow> PublicKey \<Rightarrow> PublicKey \<Rightarrow> unit promise" where
  "claimPoolRewards d stakePoolAccount rewardsDestination programId =
     (let centralKey = fst (CentralState_getKey d programId) in
      await (CentralState_retrieve d centralKey) (\<lambda>centralState.
      await (StakePool_retrieve d stakePoolAccount) (\<lambda>stakePool.
      let ix = getInstruction d claimPoolRewardsInstruction programId
                 [stakePoolAccount, StakePool_owner stakePool, rewardsDestination,
                  centralKey, CentralState_tokenMint centralState, TOKEN_PROGRAM_ID d]
      in resolve ())))"

definition claimRewards ::
  "deps \<Rightarrow> PublicKey \<Rightarrow> PublicKey \<Rightarrow> PublicKey \<Rightarrow> TransactionInstruction promise" where
  "claimRewards d stakeAccount rewardsDestination programId =
     await (StakeAccount_retrieve d stakeAccount) (\<lambda>stake.
     let centralKey = fst (CentralState_getKey d programId) in
     await (CentralState_retrieve d centralKey) (\<lambda>centralState.
     let ix = getInstruction d claimRewardsInstruction programId
                [StakeAccount_stakePool stake, stakeAccount, StakeAccount_owner stake,
                 rewardsDestination, centralKey, CentralState_tokenMint centralState,
                 TOKEN_PROGRAM_ID d]
     in resolve ix))"

definition closeStakeAccount ::
  "deps \<Rightarrow> PublicKey \<Rightarrow> PublicKey \<Rightarrow> TransactionInstruction promise" where
  "closeStakeAccount d stakeAccount programId =
     await (StakeAccount_retrieve d stakeAccount) (\<lambda>stake.
     let ix = getInstruction d closeStakeAccountInstruction programId
                [stakeAccount, StakeAccount_owner stake]
     in resolve ix)"

definition closeStakePool ::
  "deps \<Rightarrow> PublicKey \<Rightarrow> PublicKey \<Rightarrow> TransactionInstruction promise" where
  "closeStakePool d stakePoolAccount programId =
     await (StakePool_retrieve d stakePoolAccount) (\<lambda>stakePool.
     let ix = getInstruction d closeStakePoolInstruction programId
                [stakePoolAccount, StakePool_owner stakePool]
     in resolve ix)"

text \<open>
  \<open>crank\<close> takes no connection and wraps no number: it is a function of its arguments.
\<close>

definition crank :: "deps \<Rightarrow> PublicKey \<Rightarrow> PublicKey \<Rightarrow> TransactionInstruction" where
  "crank d stakePoolAccount programId =
     (let centralKey = fst (CentralState_getKey d programId);
          ix = getInstruction d crankInstruction programId [stakePoolAccount, centralKey]
      in ix)"

text \<open>
  \<open>createBond\<close>, \<open>createCentralState\<close> and \<open>signBond\<close> take no connection either, but
  they wrap numbers: the object literal of the instruction is evaluated field by field, and
  the first \<open>new BN\<close> that throws rejects the promise.
\<close>

definition createBond ::
  "deps \<Rightarrow> PublicKey \<Rightarrow> PublicKey \<Rightarrow> int \<Rightarrow> int \<Rightarrow> PublicKey \<Rightarrow> PublicKey \<Rightarrow> int \<Rightarrow> int \<Rightarrow> int \<Rightarrow> int
     \<Rightarrow> PublicKey \<Rightarrow> int \<Rightarrow> PublicKey \<Rightarrow> TransactionInstruction promise" where
  "createBond d seller buyer totalAmountSold totalQuoteAmount quoteMint sellerTokenAccount
     unlockStartDate unlockPeriod unlockAmount lastUnlockTime stakePool sellerIndex programId =
     (let bondAccount = fst (BondAccount_getKey d programId buyer totalAmountSold) in
      await (new_BN totalAmountSold) (\<lambda>totalAmountSoldBN.
      await (new_BN totalQuoteAmount) (\<lambda>totalQuoteAmountBN.
      await (new_BN unlockStartDate) (\<lambda>unlockStartDateBN.
      await (new_BN unlockPeriod) (\<lambda>unlockPeriodBN.
      await (new_BN unlockAmount) (\<lambda>unlockAmountBN.
      await (new_BN lastUnlockTime) (\<lambda>lastUnlockTimeBN.
      await (new_BN sellerIndex) (\<lambda>sellerIndexBN.
      let ix = getInstruction d
                 (createBondInstruction (toBuffer buyer) totalAmountSoldBN totalQuoteAmountBN
                    (toBuffer quoteMint) (toBuffer sellerTokenAccount) unlockStartDateBN
                    unlockPeriodBN unlockAmountBN lastUnlockTimeBN sellerIndexBN)
                 programId
                 [seller, bondAccount, stakePool, SystemProgram_programId d, seller]
      in resolve ix))))))))"

definition createCentralState ::
  "deps \<Rightarrow> int \<Rightarrow> PublicKey \<Rightarrow> PublicKey \<Rightarrow> PublicKey \<Rightarrow> PublicKey
     \<Rightarrow> TransactionInstruction promise" where
  "createCentralState d dailyInflation authority feePayer mint programId =
     (let centralKey = fst (CentralState_getKey d programId) in
      await (new_BN dailyInflation) (\<lambda>dailyInflationBN.
      let ix = getInstruction d
                 (createCentralStateInstruction dailyInflationBN (toBuffer authority))
                 programId [centralKey, SystemProgram_programId d, feePayer, mint]
      in resolve ix))"

text \<open>\<open>createStakeAccount\<close> wraps no number: a function of its arguments, as \<open>crank\<close>.\<close>

definition createStakeAccount ::
  "deps \<Rightarrow> PublicKey \<Rightarrow> PublicKey \<Rightarrow> PublicKey \<Rightarrow> PublicKey \<Rightarrow> TransactionInstruction" where
  "createStakeAccount d stakePool owner feePayer programId =
     (let (stakeAccount, nonce) = StakeAccount_getKey d programId owner stakePool;
          ix = getInstruction d (createStakeAccountInstruction nonce (toBuffer owner))
                 programId [stakeAccount, SystemProgram_programId d, stakePool, feePayer]
      in ix)"

definition createStakePool ::
  "deps \<Rightarrow> string \<Rightarrow> PublicKey \<Rightarrow> PublicKey \<Rightarrow> int \<Rightarrow> PublicKey \<Rightarrow> PublicKey
     \<Rightarrow> TransactionInstruction list promise" where
  "createStakePool d name owner destination minimumStakeAmount feePayer programId =
     (let (stakePool, nonce) = StakePool_getKey d programId owner destination;
          centralKey = fst (CentralState_getKey d programId)
      in await (CentralState_retrieve d centralKey) (\<lambda>centralState.
         await (getAssociatedTokenAddress d (ASSOCIATED_TOKEN_PROGRAM_ID d)
                  (TOKEN_PROGRAM_ID d) (CentralState_tokenMint centralState) stakePool) (\<lambda>vault.
         let createVaultIx = Token_createAssociatedTokenAccountInstruction d
                       (ASSOCIATED_TOKEN_PROGRAM_ID d) (TOKEN_PROGRAM_ID d)
                       (CentralState_tokenMint centralState) vault stakePool feePayer
         in await (new_BN minimumStakeAmount) (\<lambda>minimumStakeAmountBN.
         let ix = getInstruction d
                    (createStakePoolInstruction nonce name (toBuffer owner)
                       minimumStakeAmountBN (toBuffer destination))
                    programId [stakePool, SystemProgram_programId d, feePayer, vault]
         in resolve [createVaultIx, ix]))))"

definition signBond ::
  "deps \<Rightarrow> int \<Rightarrow> PublicKey \<Rightarrow> PublicKey \<Rightarrow> PublicKey \<Rightarrow> TransactionInstruction promise" where
  "signBond d sellerIndex seller bondAccount programId =
     await (new_BN sellerIndex) (\<lambda>sellerIndexBN.
     let ix = getInstruction d (signBondInstruction sellerIndexBN) programId
                [seller, bondAccount]
     in resolve ix)"

definition stake ::
  "deps \<Rightarrow> PublicKey \<Rightarrow> PublicKey \<Rightarrow> int \<Rightarrow> PublicKey \<Rightarrow> TransactionInstruction promise" where
  "stake d stakeAccount sourceToken amount programId =
     await (StakeAccount_retrieve d stakeAccount) (\<lambda>stake.
     await (StakePool_retrieve d (StakeAccount_stakePool stake)) (\<lambda>stakePool.
     await (new_BN amount) (\<lambda>amountBN.
     let ix = getInstruction d (stakeInstruction amountBN) programId
                [stakeAccount, StakeAccount_stakePool stake, StakeAccount_owner stake,
                 sourceToken, TOKEN_PROGRAM_ID d, StakePool_vault stakePool]
     in resolve ix)))"

definition unlockBondTokens ::
  "deps \<Rightarrow> PublicKey \<Rightarrow> PublicKey \<Rightarrow> PublicKey \<Rightarrow> TransactionInstruction promise" where
  "unlockBondTokens d bondAccount destinationToken programId =
     (let centralKey = fst (CentralState_getKey d programId) in
      await (CentralState_retrieve d centralKey) (\<lambda>centralState.
      await (BondAccount_retrieve d bondAccount) (\<lambda>bond.
      let ix = getInstruction d unlockBondTokensInstruction programId
                 [bondAccount, BondAccount_owner bond, CentralState_tokenMint centralState,
                  destinationToken, centralKey, TOKEN_PROGRAM_ID d]
      in resolve ix)))"

definition unstake ::
  "deps \<Rightarrow> PublicKey \<Rightarrow> PublicKey \<Rightarrow> int \<Rightarrow> PublicKey \<Rightarrow> TransactionInstruction promise" where
  "unstake d stakeAccount destinationToken amount programId =
     await (StakeAccount_retrieve d stakeAccount) (\<lambda>stake.
     await (StakePool_retrieve d (StakeAccount_stakePool stake)) (\<lambda>stakePool.
     await (new_BN amount) (\<lambda>amountBN.
     let ix = getInstruction d (unstakeInstruction amountBN) programId
                [stakeAccount, StakeAccount_stakePool stake, StakeAccount_owner stake,
                 destinationToken, TOKEN_PROGRAM_ID d, StakePool_vault stakePool]
     in resolve ix)))"

definition adminMint ::
  "deps \<Rightarrow> int \<Rightarrow> PublicKey \<Rightarrow> PublicKey \<Rightarrow> TransactionInstruction promise" where
  "adminMint d amount destinationToken programId =
     (let centralKey = fst (CentralState_getKey d programId) in
      await (CentralState_retrieve d centralKey) (\<lambda>centralState.
      await (new_BN amount) (\<lambda>amountBN.
      let ix = getInstruction d (adminMintInstruction amountBN) programId
                 [CentralState_authority centralState, CentralState_tokenMint centralState,
                  destinationToken, centralKey, TOKEN_PROGRAM_ID d]
      in resolve ix)))"


section \<open>The account queries (secondary bindings)\<close>

definition getStakeAccounts_filters :: "PublicKey \<Rightarrow> MemcmpFilter list" where
  "getStakeAccounts_filters owner =
     [\<lparr>offset = 0, bytes = ''4''\<rparr>, \<lparr>offset = 1, bytes = toBase58 owner\<rparr>]"

definition getStakeAccounts ::
  "deps \<Rightarrow> PublicKey \<Rightarrow> (PublicKey \<times> AccountInfo) list promise" where
  "getStakeAccounts d owner =
     (let filters = getStakeAccounts_filters owner
      in getProgramAccounts (ACCESS_PROGRAM_ID d) filters)"

definition getStakePools_filters :: "PublicKey \<Rightarrow> MemcmpFilter list" where
  "getStakePools_filters owner =
     [\<lparr>offset = 0, bytes = ''2''\<rparr>,
      \<lparr>offset = 1 + 1 + 2 + 4 + 8 + 8 + 8, bytes = toBase58 owner\<rparr>]"

definition getStakePools ::
  "deps \<Rightarrow> PublicKey \<Rightarrow> (PublicKey \<times> AccountInfo) list promise" where
  "getStakePools d owner =
     (let filters = getStakePools_filters owner
      in getProgramAccounts (ACCESS_PROGRAM_ID d) filters)"

definition getBondAccounts_filters :: "PublicKey \<Rightarrow> MemcmpFilter list" where
  "getBondAccounts_filters owner =
     [\<lparr>offset = 0, bytes = ''6''\<rparr>, \<lparr>offset = 1, bytes = toBase58 owner\<rparr>]"

definition getBondAccounts ::
  "deps \<Rightarrow> PublicKey \<Rightarrow> (PublicKey \<times> AccountInfo) list promise" where
  "getBondAccounts d owner =
     (let filters = getBondAccounts_filters owner
      in getProgramAccounts (ACCESS_PROGRAM_ID d) filters)"

definition getAllStakePools_filters :: "MemcmpFilter list" where
  "getAllStakePools_filters = [\<lparr>offset = 0, bytes = ''2''\<rparr>]"

definition getAllStakePools :: "deps \<Rightarrow> (PublicKey \<times> AccountInfo) list promise" where
  "getAllStakePools d =
     (let filters = getAllStakePools_filters
      in getProgramAccounts (ACCESS_PROGRAM_ID d) filters)"

definition getAllInactiveStakePools_filters :: "MemcmpFilter list" where
  "getAllInactiveStakePools_filters = [\<lparr>offset = 0, bytes = ''3''\<rparr>]"

definition getAllInactiveStakePools :: "deps \<Rightarrow> (PublicKey \<times> AccountInfo) list promise" where
  "getAllInactiveStakePools d =
     (let filters = getAllInactiveStakePools_filters
      in getProgramAccounts (ACCESS_PROGRAM_ID d) filters)"

definition getAllInactiveBonds_filters :: "MemcmpFilter list" where
  "getAllInactiveBonds_filters = [\<lparr>offset = 0, bytes = ''5''\<rparr>]"

definition getAllInactiveBonds :: "deps \<Rightarrow> (PublicKey \<times> AccountInfo) list promise" where
  "getAllInactiveBonds d =
     (let filters = getAllInactiveBonds_filters
      in getProgramAccounts (ACCESS_PROGRAM_ID d) filters)"

definition getAllActiveBonds_filters :: "MemcmpFilter list" where
  "getAllActiveBonds_filters = [\<lparr>offset = 0, bytes = ''6''\<rparr>]"

definition getAllActiveBonds :: "deps \<Rightarrow> (PublicKey \<times> AccountInfo) list promise" where
  "getAllActiveBonds d =
     (let filters = getAllActiveBonds_filters
      in getProgramAccounts (ACCESS_PROGRAM_ID d) filters)"


section \<open>Calls of the exported operations\<close>

text \<open>
  What a call resolves to: an instruction descriptor, a list of them (\<open>createStakePool\<close>),
  the accounts a query found, or \<open>undefined\<close> when the function ends without returning.
\<close>

datatype outcome =
    Undefined
  | Instruction TransactionInstruction
  | Instructions "TransactionInstruction list"
  | ProgramAccounts "(PublicKey \<times> AccountInfo) list"

definition returning :: "('a \<Rightarrow> outcome) \<Rightarrow> 'a promise \<Rightarrow> outcome promise" where
  "returning wrap m = await m (\<lambda>x. resolve (wrap x))"

datatype builder_call =
    ChangeInflation int PublicKey
  | ChangePoolMinimum PublicKey int PublicKey
  | ClaimBondRewards PublicKey PublicKey PublicKey
  | ClaimBond PublicKey PublicKey PublicKey PublicKey
  | ClaimPoolRewards PublicKey PublicKey PublicKey
  | ClaimRewards PublicKey PublicKey PublicKey
  | CloseStakeAccount PublicKey PublicKey
  | CloseStakePool PublicKey PublicKey
  | Crank PublicKey PublicKey
  | CreateBond PublicKey PublicKey int int PublicKey PublicKey int int int int PublicKey int PublicKey
  | CreateCentralState int PublicKey PublicKey PublicKey PublicKey
  | CreateStakeAccount PublicKey PublicKey PublicKey PublicKey
  | CreateStakePool string PublicKey PublicKey int PublicKey PublicKey
  | SignBond int PublicKey PublicKey PublicKey
  | Stake PublicKey PublicKey int PublicKey
  | UnlockBondTokens PublicKey PublicKey PublicKey
  | Unstake PublicKey PublicKey int PublicKey
  | AdminMint int PublicKey PublicKey

fun build :: "deps \<Rightarrow> builder_call \<Rightarrow> outcome promise" where
  "build d (ChangeInflation newInflation programId) =
     returning Instruction (changeInflation d newInflation programId)"
| "build d (ChangePoolMinimum stakePoolKey newMinimum programId) =
     returning Instruction (changePoolMinimum d stakePoolKey newMinimum programId)"
| "build d (ClaimBondRewards bondAccount rewardsDestination programId) =
     returning Instruction (claimBondRewards d bondAccount rewardsDestination programId)"
| "build d (ClaimBond bondAccount buyer quoteTokenSource programId) =
     returning Instruction (claimBond d bondAccount buyer quoteTokenSource programId)"
| "build d (ClaimPoolRewards stakePoolAccount rewardsDestination programId) =
     returning (\<lambda>_. Undefined) (claimPoolRewards d stakePoolAccount rewardsDestination programId)"
| "build d (ClaimRewards stakeAccount rewardsDestination programId) =
     returning Instruction (claimRewards d stakeAccount rewardsDestination programId)"
| "build d (CloseStakeAccount stakeAccount programId) =
     returning Instruction (closeStakeAccount d stakeAccount programId)"
| "build d (CloseStakePool stakePoolAccount programId) =
     returning Instruction (closeStakePool d stakePoolAccount programId)"
| "build d (Crank stakePoolAccount programId) =
     resolve (Instruction (crank d stakePoolAccount programId))"
| "build d (CreateBond seller buyer totalAmountSold totalQuoteAmount quoteMint sellerTokenAccount
       unlockStartDate unlockPeriod unlockAmount lastUnlockTime stakePool sellerIndex programId) =
     returning Instruction (createBond d seller buyer totalAmountSold totalQuoteAmount quoteMint
       sellerTokenAccount unlockStartDate unlockPeriod unlockAmount lastUnlockTime stakePool
       sellerIndex programId)"
| "build d (CreateCentralState dailyInflation authority feePayer mint programId) =
     returning Instruction (createCentralState d dailyInflation authority feePayer mint programId)"
| "build d (CreateStakeAccount stakePool owner feePayer programId) =
     resolve (Instruction (createStakeAccount d stakePool owner feePayer programId))"
| "build d (CreateStakePool name owner destination minimumStakeAmount feePayer programId) =
     returning Instructions
       (createStakePool d name owner destination minimumStakeAmount feePayer programId)"
| "build d (SignBond sellerIndex seller bondAccount programId) =
     returning Instruction (signBond d sellerIndex seller bondAccount programId)"
| "build d (Stake stakeAccount sourceToken amount programId) =
     returning Instruction (stake d stakeAccount sourceToken amount programId)"
| "build d (UnlockBondTokens bondAccount destinationToken programId) =
     returning Instruction (unlockBondTokens d bondAccount destinationToken programId)"
| "build d (Unstake stakeAccount destinationToken amount programId) =
     returning Instruction (unstake d stakeAccount destinationToken amount programId)"
| "build d (AdminMint amount destinationToken programId) =
     returning Instruction (adminMint d amount destinationToken programId)"

datatype query_call =
    GetStakeAccounts PublicKey
  | GetStakePools PublicKey
  | GetBondAccounts PublicKey
  | GetAllStakePools
  | GetAllInactiveStakePools
  | GetAllInactiveBonds
  | GetAllActiveBonds

fun query :: "deps \<Rightarrow> query_call \<Rightarrow> outcome promise" where
  "query d (GetStakeAccounts owner) = returning ProgramAccounts (getStakeAccounts d owner)"
| "query d (GetStakePools owner) = returning ProgramAccounts (getStakePools d owner)"
| "query d (GetBondAccounts owner) = returning ProgramAccounts (getBondAccounts d owner)"
| "query d GetAllStakePools = returning ProgramAccounts (getAllStakePools d)"
| "query d GetAllInactiveStakePools = returning ProgramAccounts (getAllInactiveStakePools d)"
| "query d GetAllInactiveBonds = returning ProgramAccounts (getAllInactiveBonds d)"
| "query d GetAllActiveBonds = returning ProgramAccounts (getAllActiveBonds d)"

datatype operation = Builder builder_call | Query query_call

fun invoke :: "deps \<Rightarrow> operation \<Rightarrow> outcome promise" where
  "invoke d (Builder call) = build d call"
| "invoke d (Query call) = query d call"


section \<open>Properties of a computation over the connection\<close>

text \<open>
  \<open>step_error d c s\<close>: the error that the step \<open>s\<close> raises on the connection \<open>c\<close>, if
  it raises one: the endpoint's error for a request, the missing account for a lookup, the
  error of the class's decoder on the bytes of the account read, the assertion of \<open>new BN\<close>
  on a number, the library's error for an associated address.
\<close>

fun decode_error :: "deps \<Rightarrow> account_class \<Rightarrow> Buffer \<Rightarrow> error option" where
  "decode_error d CentralStateClass buffer =
     (case CentralState_deserialize d buffer of Inl e \<Rightarrow> Some e | Inr decoded \<Rightarrow> None)"
| "decode_error d StakePoolClass buffer =
     (case StakePool_deserialize d buffer of Inl e \<Rightarrow> Some e | Inr decoded \<Rightarrow> None)"
| "decode_error d StakeAccountClass buffer =
     (case StakeAccount_deserialize d buffer of Inl e \<Rightarrow> Some e | Inr decoded \<Rightarrow> None)"
| "decode_error d BondAccountClass buffer =
     (case BondAccount_deserialize d buffer of Inl e \<Rightarrow> Some e | Inr decoded \<Rightarrow> None)"

fun step_error :: "deps \<Rightarrow> Connection \<Rightarrow> step \<Rightarrow> error option" where
  "step_error d c (Request (GetAccountInfo key)) =
     (case accountRead c key of Inl e \<Rightarrow> Some e | Inr accountInfo \<Rightarrow> None)"
| "step_error d c (Request (GetProgramAccounts programId filters)) =
     (case programScan c programId filters of Inl e \<Rightarrow> Some e | Inr found \<Rightarrow> None)"
| "step_error d c (Lookup key) =
     (case accountRead c key of
        Inl e \<Rightarrow> None
      | Inr None \<Rightarrow> Some AccountNotFound
      | Inr (Some info) \<Rightarrow> None)"
| "step_error d c (Decode cls key) =
     (case accountRead c key of
        Inl e \<Rightarrow> None
      | Inr None \<Rightarrow> None
      | Inr (Some info) \<Rightarrow> decode_error d cls (info_data info))"
| "step_error d c (Convert number) =
     (case BN number of Inl e \<Rightarrow> Some e | Inr bn \<Rightarrow> None)"
| "step_error d c (AssociatedAddress associatedProgramId programId mint owner) =
     (case Token_getAssociatedTokenAddress d associatedProgramId programId mint owner of
        Inl e \<Rightarrow> Some e
      | Inr address \<Rightarrow> None)"

text \<open>
  \<open>on_last s rs\<close>: a step \<open>s\<close> that sends a request or works on its answer belongs to the
  last of the requests \<open>rs\<close>.
\<close>

fun on_last :: "step \<Rightarrow> rpc_request list \<Rightarrow> bool" where
  "on_last (Request r) rs \<longleftrightarrow> rs \<noteq> [] \<and> last rs = r"
| "on_last (Lookup key) rs \<longleftrightarrow> rs \<noteq> [] \<and> last rs = GetAccountInfo key"
| "on_last (Decode cls key) rs \<longleftrightarrow> rs \<noteq> [] \<and> last rs = GetAccountInfo key"
| "on_last (Convert number) rs \<longleftrightarrow> True"
| "on_last (AssociatedAddress associatedProgramId programId mint owner) rs \<longleftrightarrow> True"

text \<open>
  \<open>frame\<close>: the computation leaves the endpoint's accounts and failures as they were and
  only appends to the journal. \<open>surfaces\<close>: a run that fails has raised exactly one
  error, the error of the step that raised it, and fails with that error, and no request
  follows the one the step belongs to; a run that succeeds has raised none. \<open>read_determined\<close>: its result and its requests depend on the
  connection only through the answers to the account reads it makes.
\<close>

definition frame :: "'a promise \<Rightarrow> bool" where
  "frame m \<longleftrightarrow>
     (\<forall>c. accounts (snd (m c)) = accounts c \<and> outage (snd (m c)) = outage c \<and>
          journal (snd (m c)) = journal c @ new_requests m c)"

definition surfaces :: "deps \<Rightarrow> 'a promise \<Rightarrow> bool" where
  "surfaces d m \<longleftrightarrow>
     (\<forall>c. raised (snd (m c)) = raised c @ failures m c \<and>
          (case fst (m c) of
             Inl e \<Rightarrow>
               (\<exists>s. failures m c = [(s, e)] \<and> step_error d c s = Some e \<and>
                    on_last s (new_requests m c))
           | Inr x \<Rightarrow> failures m c = []))"

definition read_determined :: "'a promise \<Rightarrow> bool" where
  "read_determined m \<longleftrightarrow>
     (\<forall>c1 c2.
        (\<forall>key. GetAccountInfo key \<in> set (new_requests m c1) \<longrightarrow>
               accountRead c1 key = accountRead c2 key) \<longrightarrow>
        fst (m c1) = fst (m c2) \<and> new_requests m c2 = new_requests m c1)"

definition is_account_read :: "rpc_request \<Rightarrow> bool" where
  "is_account_read r = (case r of GetAccountInfo key \<Rightarrow> True | GetProgramAccounts p fs \<Rightarrow> False)"

definition disciplined :: "deps \<Rightarrow> 'a promise \<Rightarrow> bool" where
  "disciplined d m \<longleftrightarrow>
     frame m \<and> surfaces d m \<and> read_determined m \<and> (\<forall>c. list_all is_account_read (new_requests m c))"


section \<open>A sample instantiation\<close>

text \<open>
  Stand-ins for the imported modules, to run the operations on concrete inputs: accounts
  are a tag byte followed by the 32-byte keys the builders read.
\<close>

definition sample_key :: "nat \<Rightarrow> PublicKey" where
  "sample_key n = PublicKey (replicate 32 (of_nat n))"

definition two_keys :: "Buffer \<Rightarrow> error + PublicKey \<times> PublicKey" where
  "two_keys buffer =
     (if length buffer = 65
      then Inr (PublicKey (take 32 (drop 1 buffer)), PublicKey (drop 33 buffer))
      else Inl (DecodeError ''unexpected length''))"

definition sample_deps :: deps where
  "sample_deps =
     \<lparr>ACCESS_PROGRAM_ID = sample_key 100,
      TOKEN_PROGRAM_ID = sample_key 101,
      ASSOCIATED_TOKEN_PROGRAM_ID = sample_key 102,
      SystemProgram_programId = sample_key 0,
      CentralState_getKey = (\<lambda>programId. (sample_key 50, 255)),
      StakePool_getKey = (\<lambda>programId owner destination. (sample_key 51, 254)),
      StakeAccount_getKey = (\<lambda>programId owner stakePool. (sample_key 52, 253)),
      BondAccount_getKey = (\<lambda>programId owner totalAmountSold. (sample_key 53, 252)),
      CentralState_deserialize = (\<lambda>buffer.
        case two_keys buffer of
          Inl e \<Rightarrow> Inl e
        | Inr (a, b) \<Rightarrow> Inr \<lparr>CentralState_authority = a, CentralState_tokenMint = b\<rparr>),
      StakePool_deserialize = (\<lambda>buffer.
        case two_keys buffer of
          Inl e \<Rightarrow> Inl e
        | Inr (a, b) \<Rightarrow> Inr \<lparr>StakePool_owner = a, StakePool_vault = b\<rparr>),
      StakeAccount_deserialize = (\<lambda>buffer.
        case two_keys buffer of
          Inl e \<Rightarrow> Inl e
        | Inr (a, b) \<Rightarrow> Inr \<lparr>StakeAccount_owner = a, StakeAccount_stakePool = b\<rparr>),
      BondAccount_deserialize = (\<lambda>buffer.
        case two_keys buffer of
          Inl e \<Rightarrow> Inl e
        | Inr (a, b) \<Rightarrow>
            Inr \<lparr>BondAccount_owner = a, BondAccount_stakePool = b,
                 BondAccount_sellerTokenAccount = a\<rparr>),
      serialize = (\<lambda>ix. []),
      Token_getAssociatedTokenAddress =
        (\<lambda>associatedProgramId programId mint owner. Inr (sample_key 54)),
      Token_createAssociatedTokenAccountInstruction =
        (\<lambda>associatedProgramId programId mint associatedAccount owner payer.
           \<lparr>ix_programId = associatedProgramId,
            ix_keys = [payer, associatedAccount, owner, mint],
            ix_data = []\<rparr>)\<rparr>"

definition sample_account :: "nat \<Rightarrow> nat \<Rightarrow> nat \<Rightarrow> AccountInfo" where
  "sample_account tag a b =
     \<lparr>info_owner = sample_key 100,
      info_data = of_nat tag # replicate 32 (of_nat a) @ replicate 32 (of_nat b)\<rparr>"

definition sample_connection :: Connection where
  "sample_connection =
     \<lparr>accounts =
        [(sample_key 50, sample_account 6 1 2),
         (sample_key 60, sample_account 1 3 4),
         (sample_key 70, sample_account 3 5 60)],
      outage = (\<lambda>request. None),
      journal = [],
      raised = []\<rparr>"

definition empty_connection :: Connection where
  "empty_connection =
     \<lparr>accounts = [], outage = (\<lambda>request. None), journal = [], raised = []\<rparr>"

definition busy_connection :: Connection where
  "busy_connection =
     \<lparr>accounts = (sample_key 90, sample_account 3 7 8) # accounts sample_connection,
      outage = (\<lambda>request. None),
      journal = [GetAccountInfo (sample_key 90)],
      raised = []\<rparr>"


section \<open>Base-58: decoding inverts encoding\<close>

lemma from_digits_snoc: "from_digits b (ds @ [d]) = from_digits b ds * b + d"
  by (simp add: from_digits_def)

lemma from_digits_Nil: "from_digits b [] = 0"
  by (simp add: from_digits_def)

lemma to_digits_0: "to_digits b 0 = []"
  by (simp add: to_digits.simps)

lemma from_to_digits: "2 \<le> b \<Longrightarrow> from_digits b (to_digits b n) = n"
proof (induction b n rule: to_digits.induct)
  case (1 b n)
  show ?case
  proof (cases "n = 0")
    case True
    then show ?thesis by (simp add: to_digits_0 from_digits_Nil)
  next
    case False
    with "1.prems" have "from_digits b (to_digits b (n div b)) = n div b"
      using "1.IH" by simp
    with False "1.prems" show ?thesis
      by (simp add: to_digits.simps [of b n] from_digits_snoc)
  qed
qed

lemma to_digits_bound: "2 \<le> b \<Longrightarrow> d \<in> set (to_digits b n) \<Longrightarrow> d < b"
proof (induction b n rule: to_digits.induct)
  case (1 b n)
  then show ?case
    by (cases "n = 0") (auto simp: to_digits.simps [of b n] to_digits_0)
qed

lemma to_digits_Nil_iff: "2 \<le> b \<Longrightarrow> to_digits b n = [] \<longleftrightarrow> n = 0"
  by (simp add: to_digits.simps [of b n])

lemma to_digits_hd: "2 \<le> b \<Longrightarrow> to_digits b n \<noteq> [] \<Longrightarrow> hd (to_digits b n) \<noteq> 0"
proof (induction b n rule: to_digits.induct)
  case (1 b n)
  from "1.prems" have n: "n \<noteq> 0" by (simp add: to_digits_Nil_iff)
  show ?case
  proof (cases "n div b = 0")
    case True
    with n "1.prems" have "n < b" by (simp add: div_eq_0_iff)
    with n "1.prems" True show ?thesis
      by (simp add: to_digits.simps [of b n] to_digits_0)
  next
    case False
    with "1.prems" have ne: "to_digits b (n div b) \<noteq> []" by (simp add: to_digits_Nil_iff)
    with "1.IH" n "1.prems" have "hd (to_digits b (n div b)) \<noteq> 0" by simp
    with ne n "1.prems" show ?thesis
      by (simp add: to_digits.simps [of b n])
  qed
qed

lemma from_digits_pos:
  "2 \<le> b \<Longrightarrow> ds \<noteq> [] \<Longrightarrow> hd ds \<noteq> 0 \<Longrightarrow> 0 < from_digits b ds"
proof (induction ds rule: rev_induct)
  case Nil
  then show ?case by simp
next
  case (snoc d ds)
  show ?case
  proof (cases "ds = []")
    case True
    with snoc.prems show ?thesis by (simp add: from_digits_def)
  next
    case False
    with snoc have "0 < from_digits b ds" by simp
    with snoc.prems show ?thesis by (simp add: from_digits_snoc)
  qed
qed

lemma to_from_digits:
  "2 \<le> b \<Longrightarrow> \<forall>d \<in> set ds. d < b \<Longrightarrow> ds = [] \<or> hd ds \<noteq> 0 \<Longrightarrow>
   to_digits b (from_digits b ds) = ds"
proof (induction ds rule: rev_induct)
  case Nil
  then show ?case by (simp add: from_digits_Nil to_digits_0)
next
  case (snoc d ds)
  from snoc.prems have d: "d < b" by simp
  have hd': "ds = [] \<or> hd ds \<noteq> 0" using snoc.prems(3) by (cases ds) auto
  with snoc have IH: "to_digits b (from_digits b ds) = ds" by simp
  have nz: "from_digits b ds * b + d \<noteq> 0"
  proof (cases "ds = []")
    case True
    with snoc.prems(3) show ?thesis by (simp add: from_digits_Nil)
  next
    case False
    with hd' snoc.prems(1) have "0 < from_digits b ds" by (simp add: from_digits_pos)
    with snoc.prems(1) show ?thesis by simp
  qed
  from d snoc.prems(1) have "(from_digits b ds * b + d) div b = from_digits b ds"
    by simp
  moreover from d have "(from_digits b ds * b + d) mod b = d" by simp
  ultimately show ?case
    using nz snoc.prems(1) IH
    by (simp add: from_digits_snoc to_digits.simps [of b "from_digits b ds * b + d"])
qed

lemma from_digits_zeros: "from_digits b (replicate z 0 @ ds) = from_digits b ds"
proof -
  have "foldl (\<lambda>acc d. acc * b + d) 0 (replicate z 0) = 0"
    by (induction z) simp_all
  then show ?thesis by (simp add: from_digits_def)
qed

lemma distinct_ALPHABET: "distinct ALPHABET"
  by (simp add: ALPHABET_def)

lemma length_ALPHABET: "length ALPHABET = 58"
  by (simp add: ALPHABET_def)

lemma index_nth_distinct:
  "distinct xs \<Longrightarrow> i < length xs \<Longrightarrow> length (takeWhile (\<lambda>a. a \<noteq> xs ! i) xs) = i"
proof (induction xs arbitrary: i)
  case Nil
  then show ?case by simp
next
  case (Cons x xs)
  then show ?case by (cases i) auto
qed

lemma digit_of_nth: "d < 58 \<Longrightarrow> digit_of (ALPHABET ! d) = d"
  unfolding digit_of_def
  by (rule index_nth_distinct) (simp_all add: distinct_ALPHABET length_ALPHABET)

lemma ALPHABET_0: "ALPHABET ! 0 = CHR ''1''"
  by (simp add: ALPHABET_def)

lemma nth_ALPHABET_eq_1: "d < 58 \<Longrightarrow> ALPHABET ! d = CHR ''1'' \<longleftrightarrow> d = 0"
proof
  assume d: "d < 58" and "ALPHABET ! d = CHR ''1''"
  then have "digit_of (ALPHABET ! d) = digit_of (ALPHABET ! 0)" by (simp add: ALPHABET_0)
  with d show "d = 0" by (simp add: digit_of_nth)
qed (simp add: ALPHABET_0)

lemma takeWhile_zeros: "replicate (length (takeWhile (\<lambda>x. x = (0::byte)) bs)) 0 = takeWhile (\<lambda>x. x = 0) bs"
  by (induction bs) simp_all

lemma takeWhile_replicate_append:
  "P c \<Longrightarrow> takeWhile P (replicate z c @ ys) = replicate z c @ takeWhile P ys"
  by (induction z) simp_all

theorem bs58_decode_encode: "bs58_decode (bs58_encode bs) = Some bs"
proof -
  define z where "z = length (takeWhile (\<lambda>x. x = 0) bs)"
  define rest where "rest = dropWhile (\<lambda>x. x = 0) bs"
  define n where "n = from_digits 256 (map unat bs)"
  define ds where "ds = to_digits 58 n"
  have bs: "bs = replicate z 0 @ rest"
    by (simp add: z_def rest_def takeWhile_zeros)
  have enc: "bs58_encode bs = replicate z (CHR ''1'') @ map (\<lambda>d. ALPHABET ! d) ds"
    by (simp add: bs58_encode_def z_def n_def ds_def Let_def)
  have ds_lt: "\<forall>d \<in> set ds. d < 58"
    by (auto simp: ds_def dest: to_digits_bound [rotated])
  have ds_hd: "ds = [] \<or> hd ds \<noteq> 0"
  proof (cases "ds = []")
    case False
    then have "hd (to_digits 58 n) \<noteq> 0"
      unfolding ds_def by (intro to_digits_hd) simp_all
    then show ?thesis by (simp add: ds_def)
  qed simp
  have valid: "list_all (\<lambda>c. c \<in> set ALPHABET) (bs58_encode bs)"
    using ds_lt by (auto simp: enc list_all_iff length_ALPHABET ALPHABET_0 [symmetric])
  have tw: "takeWhile (\<lambda>c. c = CHR ''1'') (bs58_encode bs) = replicate z (CHR ''1'')"
  proof (cases ds)
    case Nil
    then show ?thesis by (simp add: enc)
  next
    case (Cons d ds')
    with ds_lt ds_hd have "d < 58" "d \<noteq> 0" by auto
    then have "ALPHABET ! d \<noteq> CHR ''1''" by (simp add: nth_ALPHABET_eq_1)
    then have "takeWhile (\<lambda>c. c = CHR ''1'') (map (\<lambda>d. ALPHABET ! d) ds) = []"
      by (simp add: Cons)
    then show ?thesis by (simp add: enc takeWhile_replicate_append)
  qed
  have digs: "map digit_of (bs58_encode bs) = replicate z 0 @ ds"
  proof -
    have "map digit_of (replicate z (CHR ''1'')) = replicate z 0"
      using digit_of_nth [of 0] by (simp add: ALPHABET_0)
    moreover have "map (\<lambda>d. digit_of (ALPHABET ! d)) ds = ds"
      using ds_lt by (simp add: digit_of_nth map_idI)
    ultimately show ?thesis by (simp add: enc comp_def)
  qed
  have num: "from_digits 58 (map digit_of (bs58_encode bs)) = n"
    by (simp add: digs from_digits_zeros ds_def from_to_digits)
  have n_rest: "n = from_digits 256 (map unat rest)"
    unfolding n_def by (subst bs) (simp add: from_digits_zeros)
  have rest_hd: "map unat rest = [] \<or> hd (map unat rest) \<noteq> 0"
  proof (cases rest)
    case Nil
    then show ?thesis by simp
  next
    case (Cons r rs)
    then have "r \<noteq> 0"
      using hd_dropWhile [of "\<lambda>x. x = 0" bs] by (simp add: rest_def)
    with Cons show ?thesis by (simp add: unat_eq_0)
  qed
  have rest_lt: "\<forall>d \<in> set (map unat rest). d < 256"
  proof
    fix d assume "d \<in> set (map unat rest)"
    then obtain w :: byte where "d = unat w" by auto
    then show "d < 256" using unsigned_less [of w, where ?'a = nat] by simp
  qed
  have "to_digits 256 n = map unat rest"
    unfolding n_rest using rest_lt rest_hd by (intro to_from_digits) simp_all
  then have "map of_nat (to_digits 256 n) = rest"
    by (simp add: comp_def map_idI)
  then show ?thesis
    using valid tw num bs by (simp add: bs58_decode_def Let_def)
qed

text \<open>The one-character patterns of the queries, decoded.\<close>

lemma bs58_decode_digit_2: "bs58_decode ''2'' = Some [1]"
  by code_simp

lemma bs58_decode_digit_3: "bs58_decode ''3'' = Some [2]"
  by code_simp

lemma bs58_decode_digit_4: "bs58_decode ''4'' = Some [3]"
  by code_simp

lemma bs58_decode_digit_5: "bs58_decode ''5'' = Some [4]"
  by code_simp

lemma bs58_decode_digit_6: "bs58_decode ''6'' = Some [5]"
  by code_simp


section \<open>Composition of computations\<close>

lemma new_requests_resolve: "new_requests (resolve x) c = []"
  by (simp add: new_requests_def resolve_def)

lemma new_requests_reject: "new_requests (reject s e) c = []"
  by (simp add: new_requests_def reject_def)

lemma new_requests_getAccountInfo: "new_requests (getAccountInfo key) c = [GetAccountInfo key]"
  by (simp add: new_requests_def getAccountInfo_def resolve_def reject_def split: sum.split)

lemma new_requests_getProgramAccounts:
  "new_requests (getProgramAccounts programId filters) c = [GetProgramAccounts programId filters]"
  by (simp add: new_requests_def getProgramAccounts_def resolve_def reject_def split: sum.split)

lemma fst_getAccountInfo: "fst (getAccountInfo key c) = accountRead c key"
  by (simp add: getAccountInfo_def resolve_def reject_def accountRead_def
      split: sum.split option.split)

lemma fst_getProgramAccounts:
  "fst (getProgramAccounts programId filters c) = programScan c programId filters"
  by (simp add: getProgramAccounts_def resolve_def reject_def programScan_def
      split: sum.split option.split)

lemma frame_resolve: "frame (resolve x)"
  by (simp add: frame_def new_requests_resolve) (simp add: resolve_def)

lemma frame_reject: "frame (reject s e)"
  by (simp add: frame_def new_requests_reject) (simp add: reject_def)

lemma frame_getAccountInfo: "frame (getAccountInfo key)"
  by (simp add: frame_def new_requests_getAccountInfo)
    (simp add: getAccountInfo_def resolve_def reject_def split: sum.split)

lemma frame_getProgramAccounts: "frame (getProgramAccounts programId filters)"
  by (simp add: frame_def new_requests_getProgramAccounts)
    (simp add: getProgramAccounts_def resolve_def reject_def split: sum.split)

lemma frame_new_BN: "frame (new_BN number)"
  by (simp add: new_BN_def frame_resolve frame_reject split: sum.split)

lemma frame_getAssociatedTokenAddress:
  "frame (getAssociatedTokenAddress d associatedProgramId programId mint owner)"
  by (simp add: getAssociatedTokenAddress_def frame_resolve frame_reject split: sum.split)

lemma await_Inl: "fst (m c) = Inl e \<Longrightarrow> await m f c = (Inl e, snd (m c))"
  by (cases "m c") (simp add: await_def)

lemma await_Inr: "fst (m c) = Inr x \<Longrightarrow> await m f c = f x (snd (m c))"
  by (cases "m c") (simp add: await_def)

lemma frameD:
  assumes "frame m"
  shows "accounts (snd (m c)) = accounts c" and "outage (snd (m c)) = outage c"
    and "journal (snd (m c)) = journal c @ new_requests m c"
  using assms by (simp_all add: frame_def)

lemma frame_journal:
  assumes "frame m"
  obtains rs where "journal (snd (m c)) = journal c @ rs" and "new_requests m c = rs"
  using assms by (simp add: frame_def)

lemma new_requests_await:
  assumes m: "frame m" and f: "\<And>x. frame (f x)"
  shows "new_requests (await m f) c =
           new_requests m c @
           (case fst (m c) of Inl e \<Rightarrow> [] | Inr x \<Rightarrow> new_requests (f x) (snd (m c)))"
proof -
  obtain A where a: "journal (snd (m c)) = journal c @ A" and a': "new_requests m c = A"
    using m by (rule frame_journal)
  show ?thesis
  proof (cases "fst (m c)")
    case (Inl e)
    then have "await m f c = (Inl e, snd (m c))" by (simp add: await_Inl)
    with Inl show ?thesis by (simp add: new_requests_def)
  next
    case (Inr x)
    obtain B where b: "journal (snd (f x (snd (m c)))) = journal (snd (m c)) @ B"
      and b': "new_requests (f x) (snd (m c)) = B"
      using f by (rule frame_journal)
    have "await m f c = f x (snd (m c))" using Inr by (simp add: await_Inr)
    then have "new_requests (await m f) c = A @ B"
      by (simp add: new_requests_def b a)
    with Inr a' b' show ?thesis by simp
  qed
qed

lemma frame_await:
  assumes m: "frame m" and f: "\<And>x. frame (f x)"
  shows "frame (await m f)"
  unfolding frame_def
proof (intro allI conjI)
  fix c
  show "accounts (snd (await m f c)) = accounts c"
    using frameD(1) [OF m, of c] frameD(1) [OF f, of _ "snd (m c)"]
    by (cases "fst (m c)") (simp_all add: await_Inl await_Inr)
  show "outage (snd (await m f c)) = outage c"
    using frameD(2) [OF m, of c] frameD(2) [OF f, of _ "snd (m c)"]
    by (cases "fst (m c)") (simp_all add: await_Inl await_Inr)
  show "journal (snd (await m f c)) = journal c @ new_requests (await m f) c"
    using frameD(3) [OF m, of c] frameD(3) [OF f, of _ "snd (m c)"]
    by (cases "fst (m c)") (simp_all add: new_requests_await [OF m f] await_Inl await_Inr)
qed

lemma accountRead_cong:
  "accounts c' = accounts c \<Longrightarrow> outage c' = outage c \<Longrightarrow> accountRead c' key = accountRead c key"
  by (simp add: accountRead_def split: option.splits)

lemma programScan_cong:
  "accounts c' = accounts c \<Longrightarrow> outage c' = outage c \<Longrightarrow>
   programScan c' programId filters = programScan c programId filters"
  by (simp add: programScan_def split: option.splits)

lemma step_error_cong:
  assumes "accounts c' = accounts c" and "outage c' = outage c"
  shows "step_error d c' s = step_error d c s"
proof (cases s)
  case (Request r)
  then show ?thesis
    using accountRead_cong [OF assms] programScan_cong [OF assms] by (cases r) simp_all
next
  case (Lookup key)
  then show ?thesis using accountRead_cong [OF assms, of key] by simp
next
  case (Decode cls key)
  then show ?thesis using accountRead_cong [OF assms, of key] by simp
qed simp_all

lemma fst_retrieve:
  "fst (retrieve cls deserialize key c) =
     (case accountRead c key of
        Inl e \<Rightarrow> Inl e
      | Inr None \<Rightarrow> Inl AccountNotFound
      | Inr (Some info) \<Rightarrow> deserialize (info_data info))"
  by (simp add: retrieve_def await_def getAccountInfo_def resolve_def reject_def
      split: sum.splits option.splits)

lemma retrieve_cong:
  "accounts c' = accounts c \<Longrightarrow> outage c' = outage c \<Longrightarrow>
   fst (retrieve cls deserialize key c') = fst (retrieve cls deserialize key c)"
  using accountRead_cong [of c' c key] by (simp add: fst_retrieve)

lemma frame_retrieve: "frame (retrieve cls deserialize key)"
  unfolding retrieve_def
  by (intro frame_await frame_getAccountInfo)
    (simp add: frame_resolve frame_reject split: option.split sum.split)

lemma new_requests_retrieve:
  "new_requests (retrieve cls deserialize key) c = [GetAccountInfo key]"
  by (simp add: retrieve_def new_requests_def await_def getAccountInfo_def resolve_def reject_def
      split: sum.splits option.splits)

lemma failures_resolve: "failures (resolve x) c = []"
  by (simp add: failures_def resolve_def)

lemma failures_reject: "failures (reject s e) c = [(s, e)]"
  by (simp add: failures_def reject_def)

lemma surfaces_resolve: "surfaces d (resolve x)"
  by (simp add: surfaces_def failures_def resolve_def)

lemma surfacesD:
  assumes "surfaces d m"
  shows "raised (snd (m c)) = raised c @ failures m c"
    and "fst (m c) = Inl e \<Longrightarrow>
           \<exists>s. failures m c = [(s, e)] \<and> step_error d c s = Some e \<and> on_last s (new_requests m c)"
    and "fst (m c) = Inr x \<Longrightarrow> failures m c = []"
proof -
  from assms have all: "raised (snd (m c)) = raised c @ failures m c \<and>
      (case fst (m c) of
         Inl e \<Rightarrow>
           (\<exists>s. failures m c = [(s, e)] \<and> step_error d c s = Some e \<and>
                on_last s (new_requests m c))
       | Inr x \<Rightarrow> failures m c = [])"
    by (simp add: surfaces_def)
  then show "raised (snd (m c)) = raised c @ failures m c" by simp
  from all show "fst (m c) = Inl e \<Longrightarrow>
      \<exists>s. failures m c = [(s, e)] \<and> step_error d c s = Some e \<and> on_last s (new_requests m c)"
    by simp
  from all show "fst (m c) = Inr x \<Longrightarrow> failures m c = []"
    by simp
qed

lemma on_last_append: "on_last s rs \<Longrightarrow> on_last s (rs' @ rs)"
  by (cases s) simp_all

lemma surfaces_await:
  assumes m: "frame m" and f: "\<And>x. frame (f x)"
    and sm: "surfaces d m" and sf: "\<And>x. surfaces d (f x)"
  shows "surfaces d (await m f)"
  unfolding surfaces_def
proof (intro allI)
  fix c
  show "raised (snd (await m f c)) = raised c @ failures (await m f) c \<and>
      (case fst (await m f c) of
         Inl e \<Rightarrow>
           (\<exists>s. failures (await m f) c = [(s, e)] \<and> step_error d c s = Some e \<and>
                on_last s (new_requests (await m f) c))
       | Inr x \<Rightarrow> failures (await m f) c = [])"
  proof (cases "fst (m c)")
    case (Inl e)
    then have aw: "await m f c = (Inl e, snd (m c))" by (simp add: await_Inl)
    then have same: "failures (await m f) c = failures m c" by (simp add: failures_def)
    have reqs: "new_requests (await m f) c = new_requests m c"
      by (simp add: new_requests_await [OF m f] Inl)
    from surfacesD(2) [OF sm Inl] surfacesD(1) [OF sm, of c] show ?thesis
      by (simp add: aw same reqs)
  next
    case (Inr x)
    let ?c' = "snd (m c)"
    have aw: "await m f c = f x ?c'" using Inr by (simp add: await_Inr)
    have none: "raised ?c' = raised c"
      using surfacesD(1) [OF sm, of c] surfacesD(3) [OF sm Inr] by simp
    then have same: "failures (await m f) c = failures (f x) ?c'"
      by (simp add: failures_def aw)
    have reqs: "new_requests (await m f) c = new_requests m c @ new_requests (f x) ?c'"
      by (simp add: new_requests_await [OF m f] Inr)
    have cong: "step_error d ?c' s = step_error d c s" for s
      by (rule step_error_cong) (simp_all add: frameD [OF m])
    show ?thesis
    proof (cases "fst (f x ?c')")
      case (Inl e)
      from surfacesD(2) [OF sf Inl] obtain s where "failures (f x) ?c' = [(s, e)]"
        and "step_error d ?c' s = Some e" and "on_last s (new_requests (f x) ?c')"
        by blast
      then have "failures (await m f) c = [(s, e)] \<and> step_error d c s = Some e \<and>
          on_last s (new_requests (await m f) c)"
        by (simp add: same cong reqs on_last_append)
      with surfacesD(1) [OF sf, of x ?c'] Inl show ?thesis
        by (auto simp: aw same none)
    next
      case (Inr y)
      from surfacesD(3) [OF sf Inr] surfacesD(1) [OF sf, of x ?c'] Inr show ?thesis
        by (simp add: aw same none)
    qed
  qed
qed

lemma surfaces_new_BN: "surfaces d (new_BN number)"
  by (simp add: surfaces_def failures_def new_BN_def resolve_def reject_def split: sum.split)

lemma surfaces_getAssociatedTokenAddress:
  "surfaces d (getAssociatedTokenAddress d associatedProgramId programId mint owner)"
  by (simp add: surfaces_def failures_def getAssociatedTokenAddress_def resolve_def reject_def
      split: sum.split)

lemma surfaces_getProgramAccounts: "surfaces d (getProgramAccounts programId filters)"
  by (simp add: surfaces_def failures_def new_requests_def getProgramAccounts_def resolve_def
      reject_def split: sum.split)

lemma surfaces_retrieve:
  assumes "\<And>buffer. decode_error d cls buffer =
             (case deserialize buffer of Inl e \<Rightarrow> Some e | Inr decoded \<Rightarrow> None)"
  shows "surfaces d (retrieve cls deserialize key)"
  using assms
  by (simp add: surfaces_def failures_def new_requests_def retrieve_def await_def
      getAccountInfo_def resolve_def reject_def accountRead_def split: sum.split option.split)

lemma read_determined_resolve: "read_determined (resolve x)"
  by (simp add: read_determined_def new_requests_resolve) (simp add: resolve_def)

lemma read_determined_new_BN: "read_determined (new_BN number)"
  by (simp add: read_determined_def new_requests_def new_BN_def resolve_def reject_def
      split: sum.split)

lemma read_determined_getAssociatedTokenAddress:
  "read_determined (getAssociatedTokenAddress d associatedProgramId programId mint owner)"
  by (simp add: read_determined_def new_requests_def getAssociatedTokenAddress_def resolve_def
      reject_def split: sum.split)

lemma read_determined_await:
  assumes m: "frame m" and f: "\<And>x. frame (f x)"
    and sm: "read_determined m" and sf: "\<And>x. read_determined (f x)"
  shows "read_determined (await m f)"
  unfolding read_determined_def
proof (intro allI impI)
  fix c1 c2
  assume agree: "\<forall>key. GetAccountInfo key \<in> set (new_requests (await m f) c1) \<longrightarrow>
    accountRead c1 key = accountRead c2 key"
  then have "\<forall>key. GetAccountInfo key \<in> set (new_requests m c1) \<longrightarrow>
    accountRead c1 key = accountRead c2 key"
    by (simp add: new_requests_await [OF m f])
  with sm have res: "fst (m c1) = fst (m c2)" and req: "new_requests m c2 = new_requests m c1"
    by (simp_all add: read_determined_def)
  show "fst (await m f c1) = fst (await m f c2) \<and>
    new_requests (await m f) c2 = new_requests (await m f) c1"
  proof (cases "fst (m c1)")
    case (Inl e)
    with res have i2: "fst (m c2) = Inl e" by simp
    have "await m f c1 = (Inl e, snd (m c1))" "await m f c2 = (Inl e, snd (m c2))"
      using Inl i2 by (simp_all add: await_Inl)
    then show ?thesis
      by (simp add: new_requests_await [OF m f] Inl i2 req)
  next
    case (Inr x)
    with res have i2: "fst (m c2) = Inr x" by simp
    have r1: "accountRead (snd (m c1)) key = accountRead c1 key" for key
      by (rule accountRead_cong) (simp_all add: frameD [OF m])
    have r2: "accountRead (snd (m c2)) key = accountRead c2 key" for key
      by (rule accountRead_cong) (simp_all add: frameD [OF m])
    from agree have "\<forall>key. GetAccountInfo key \<in> set (new_requests (f x) (snd (m c1))) \<longrightarrow>
      accountRead (snd (m c1)) key = accountRead (snd (m c2)) key"
      by (simp add: new_requests_await [OF m f] Inr r1 r2)
    with sf [of x] have "fst (f x (snd (m c1))) = fst (f x (snd (m c2)))"
      and "new_requests (f x) (snd (m c2)) = new_requests (f x) (snd (m c1))"
      by (simp_all add: read_determined_def)
    moreover have "await m f c1 = f x (snd (m c1))" "await m f c2 = f x (snd (m c2))"
      using Inr i2 by (simp_all add: await_Inr)
    ultimately show ?thesis
      by (simp add: new_requests_await [OF m f] Inr i2 req)
  qed
qed

lemma read_determined_retrieve: "read_determined (retrieve cls deserialize key)"
  by (simp add: read_determined_def new_requests_retrieve fst_retrieve)

lemma disciplined_resolve: "disciplined d (resolve x)"
  by (simp add: disciplined_def frame_resolve surfaces_resolve read_determined_resolve
      new_requests_resolve)

lemma disciplined_new_BN: "disciplined d (new_BN number)"
  by (simp add: disciplined_def frame_new_BN surfaces_new_BN read_determined_new_BN)
    (simp add: new_requests_def new_BN_def resolve_def reject_def split: sum.split)

lemma disciplined_getAssociatedTokenAddress:
  "disciplined d (getAssociatedTokenAddress d associatedProgramId programId mint owner)"
  by (simp add: disciplined_def frame_getAssociatedTokenAddress
      surfaces_getAssociatedTokenAddress read_determined_getAssociatedTokenAddress)
    (simp add: new_requests_def getAssociatedTokenAddress_def resolve_def reject_def
      split: sum.split)

lemma disciplined_await:
  assumes "disciplined d m" and "\<And>x. disciplined d (f x)"
  shows "disciplined d (await m f)"
proof -
  from assms have m: "frame m" and f: "\<And>x. frame (f x)"
    by (simp_all add: disciplined_def)
  have "list_all is_account_read (new_requests (await m f) c)" for c
    using assms by (simp add: new_requests_await [OF m f] disciplined_def split: sum.split)
  with assms m f show ?thesis
    by (simp add: disciplined_def frame_await surfaces_await read_determined_await)
qed

lemma disciplined_retrieve:
  assumes "\<And>buffer. decode_error d cls buffer =
             (case deserialize buffer of Inl e \<Rightarrow> Some e | Inr decoded \<Rightarrow> None)"
  shows "disciplined d (retrieve cls deserialize key)"
  using surfaces_retrieve [OF assms]
  by (simp add: disciplined_def frame_retrieve read_determined_retrieve new_requests_retrieve
      is_account_read_def)

lemma disciplined_CentralState_retrieve: "disciplined d (CentralState_retrieve d key)"
  unfolding CentralState_retrieve_def by (rule disciplined_retrieve) simp

lemma disciplined_StakePool_retrieve: "disciplined d (StakePool_retrieve d key)"
  unfolding StakePool_retrieve_def by (rule disciplined_retrieve) simp

lemma disciplined_StakeAccount_retrieve: "disciplined d (StakeAccount_retrieve d key)"
  unfolding StakeAccount_retrieve_def by (rule disciplined_retrieve) simp

lemma disciplined_BondAccount_retrieve: "disciplined d (BondAccount_retrieve d key)"
  unfolding BondAccount_retrieve_def by (rule disciplined_retrieve) simp

lemmas disciplined_intros =
  disciplined_await disciplined_resolve disciplined_new_BN
  disciplined_getAssociatedTokenAddress disciplined_CentralState_retrieve
  disciplined_StakePool_retrieve disciplined_StakeAccount_retrieve
  disciplined_BondAccount_retrieve

lemma disciplined_returning: "disciplined d m \<Longrightarrow> disciplined d (returning wrap m)"
  unfolding returning_def by (intro disciplined_intros)

lemma disciplined_build: "disciplined d (build d call)"
  by (cases call)
    (simp_all add: changeInflation_def changePoolMinimum_def claimBondRewards_def claimBond_def
      claimPoolRewards_def claimRewards_def closeStakeAccount_def closeStakePool_def
      createBond_def createCentralState_def signBond_def
      createStakePool_def stake_def unlockBondTokens_def unstake_def adminMint_def
      Let_def split_def disciplined_returning disciplined_intros)


section \<open>The filters of the account queries\<close>

text \<open>
  The pattern of a query's filter is base-58 text. The text of an address decodes to the
  address bytes, and the one-character texts \<open>2\<close> to \<open>6\<close> decode to the bytes 1 to 5.
\<close>

lemma filter_pattern_toBase58:
  "filter_pattern \<lparr>offset = n, bytes = toBase58 key\<rparr> = Some (toBuffer key)"
  by (simp add: filter_pattern_def toBase58_def bs58_decode_encode)

lemma filter_pattern_digits:
  "filter_pattern \<lparr>offset = n, bytes = ''2''\<rparr> = Some [1]"
  "filter_pattern \<lparr>offset = n, bytes = ''3''\<rparr> = Some [2]"
  "filter_pattern \<lparr>offset = n, bytes = ''4''\<rparr> = Some [3]"
  "filter_pattern \<lparr>offset = n, bytes = ''5''\<rparr> = Some [4]"
  "filter_pattern \<lparr>offset = n, bytes = ''6''\<rparr> = Some [5]"
  by (simp_all add: filter_pattern_def bs58_decode_digit_2 bs58_decode_digit_3
      bs58_decode_digit_4 bs58_decode_digit_5 bs58_decode_digit_6)

lemma memcmp_toBase58:
  "memcmp account_data \<lparr>offset = n, bytes = toBase58 key\<rparr> =
     (take (length (toBuffer key)) (drop n account_data) = toBuffer key)"
  by (simp add: memcmp_def filter_pattern_toBase58)

lemma memcmp_digits:
  "memcmp account_data \<lparr>offset = 0, bytes = ''2''\<rparr> = (take 1 account_data = [1])"
  "memcmp account_data \<lparr>offset = 0, bytes = ''3''\<rparr> = (take 1 account_data = [2])"
  "memcmp account_data \<lparr>offset = 0, bytes = ''4''\<rparr> = (take 1 account_data = [3])"
  "memcmp account_data \<lparr>offset = 0, bytes = ''5''\<rparr> = (take 1 account_data = [4])"
  "memcmp account_data \<lparr>offset = 0, bytes = ''6''\<rparr> = (take 1 account_data = [5])"
  by (simp_all add: memcmp_def filter_pattern_digits)

lemma programScan_valid:
  "list_all (\<lambda>f. filter_pattern f \<noteq> None) filters \<Longrightarrow>
   programScan c programId filters =
     (case outage c (GetProgramAccounts programId filters) of
        Some e \<Rightarrow> Inl e
      | None \<Rightarrow> Inr (filter (\<lambda>(key, info). info_owner info = programId \<and>
                               list_all (memcmp (info_data info)) filters) (accounts c)))"
  by (simp add: programScan_def split: option.splits)


text \<open>
  C2 (as amended). For every owner address, \<open>getStakeAccounts\<close> sends one scan request
  with exactly two filters: at offset 0 the base-58 text \<open>4\<close>, which is the single byte 3,
  and at offset 1 the base-58 text of the owner's address, which is the address bytes. An
  account passes the filters exactly when its first byte is 3 and the owner's bytes follow.
\<close>

theorem getStakeAccounts_filters_pattern:
  "new_requests (getStakeAccounts d owner) c =
     [GetProgramAccounts (ACCESS_PROGRAM_ID d)
        [\<lparr>offset = 0, bytes = ''4''\<rparr>, \<lparr>offset = 1, bytes = toBase58 owner\<rparr>]] \<and>
   map filter_pattern (getStakeAccounts_filters owner) = [Some [3], Some (toBuffer owner)] \<and>
   list_all (memcmp account_data) (getStakeAccounts_filters owner) =
     (take 1 account_data = [3] \<and>
      take (length (toBuffer owner)) (drop 1 account_data) = toBuffer owner)"
  by (simp add: getStakeAccounts_def getStakeAccounts_filters_def new_requests_getProgramAccounts
      filter_pattern_toBase58 filter_pattern_digits memcmp_toBase58 memcmp_digits)


text \<open>
  C2 as stated fails: the pattern at offset 0 is not the byte 4. An account whose first
  byte is 4, followed by the owner's address, does not pass the filters; one whose first
  byte is 3 does.
\<close>

theorem getStakeAccounts_discriminator_counterexample:
  "\<not> (length (getStakeAccounts_filters (sample_key 1)) = 2 \<and>
      offset (getStakeAccounts_filters (sample_key 1) ! 0) = 0 \<and>
      filter_pattern (getStakeAccounts_filters (sample_key 1) ! 0) = Some [4] \<and>
      offset (getStakeAccounts_filters (sample_key 1) ! 1) = 1 \<and>
      bytes (getStakeAccounts_filters (sample_key 1) ! 1) = toBase58 (sample_key 1)) \<and>
   \<not> list_all (memcmp (4 # toBuffer (sample_key 1))) (getStakeAccounts_filters (sample_key 1)) \<and>
   list_all (memcmp (3 # toBuffer (sample_key 1))) (getStakeAccounts_filters (sample_key 1))"
  by (simp add: getStakeAccounts_filters_def filter_pattern_digits memcmp_toBase58 memcmp_digits)

text \<open>
  C3 (as amended). The bond queries filter with base-58 text: for every owner address,
  \<open>getBondAccounts\<close> filters on the text \<open>6\<close>, the byte 5, at offset 0 and on the text of
  the owner's address, the address bytes, at offset 1; \<open>getAllInactiveBonds\<close> filters on
  the text \<open>5\<close>, the byte 4, at offset 0; \<open>getAllActiveBonds\<close> filters on the text \<open>6\<close>,
  the byte 5, at offset 0.
\<close>

theorem bond_queries_filters_pattern:
  "new_requests (getBondAccounts d owner) c =
     [GetProgramAccounts (ACCESS_PROGRAM_ID d)
        [\<lparr>offset = 0, bytes = ''6''\<rparr>, \<lparr>offset = 1, bytes = toBase58 owner\<rparr>]] \<and>
   map filter_pattern (getBondAccounts_filters owner) = [Some [5], Some (toBuffer owner)] \<and>
   list_all (memcmp account_data) (getBondAccounts_filters owner) =
     (take 1 account_data = [5] \<and>
      take (length (toBuffer owner)) (drop 1 account_data) = toBuffer owner) \<and>
   new_requests (getAllInactiveBonds d) c =
     [GetProgramAccounts (ACCESS_PROGRAM_ID d) [\<lparr>offset = 0, bytes = ''5''\<rparr>]] \<and>
   map filter_pattern getAllInactiveBonds_filters = [Some [4]] \<and>
   list_all (memcmp account_data) getAllInactiveBonds_filters = (take 1 account_data = [4]) \<and>
   new_requests (getAllActiveBonds d) c =
     [GetProgramAccounts (ACCESS_PROGRAM_ID d) [\<lparr>offset = 0, bytes = ''6''\<rparr>]] \<and>
   map filter_pattern getAllActiveBonds_filters = [Some [5]] \<and>
   list_all (memcmp account_data) getAllActiveBonds_filters = (take 1 account_data = [5])"
  by (simp add: getBondAccounts_def getBondAccounts_filters_def getAllInactiveBonds_def
      getAllInactiveBonds_filters_def getAllActiveBonds_def getAllActiveBonds_filters_def
      new_requests_getProgramAccounts filter_pattern_toBase58 filter_pattern_digits
      memcmp_toBase58 memcmp_digits)

text \<open>
  C3 as stated fails: none of the three patterns at offset 0 is the byte the claim gives.
  An account whose first byte is 6 passes neither \<open>getBondAccounts\<close>' filters nor
  \<open>getAllActiveBonds\<close>', and one whose first byte is 5 passes \<open>getAllActiveBonds\<close>'
  filter, not \<open>getAllInactiveBonds\<close>'.
\<close>

theorem bond_queries_discriminator_counterexample:
  "filter_pattern (getBondAccounts_filters (sample_key 1) ! 0) \<noteq> Some [6] \<and>
   filter_pattern (getAllInactiveBonds_filters ! 0) \<noteq> Some [5] \<and>
   filter_pattern (getAllActiveBonds_filters ! 0) \<noteq> Some [6] \<and>
   \<not> list_all (memcmp (6 # toBuffer (sample_key 1))) (getBondAccounts_filters (sample_key 1)) \<and>
   \<not> list_all (memcmp (6 # toBuffer (sample_key 1))) getAllActiveBonds_filters \<and>
   \<not> list_all (memcmp (5 # toBuffer (sample_key 1))) getAllInactiveBonds_filters \<and>
   list_all (memcmp (5 # toBuffer (sample_key 1))) getAllActiveBonds_filters"
  by (simp add: getBondAccounts_filters_def getAllInactiveBonds_filters_def
      getAllActiveBonds_filters_def filter_pattern_digits memcmp_toBase58 memcmp_digits)

text \<open>
  C4 (as amended). The stake-pool queries filter with base-58 text: for every owner
  address, \<open>getStakePools\<close> filters on the text \<open>2\<close>, the byte 1, at offset 0 and on the
  text of the owner's address, the address bytes, at offset 32 (\<open>1+1+2+4+8+8+8\<close>);
  \<open>getAllInactiveStakePools\<close> filters on the text \<open>3\<close>, the byte 2, at offset 0.
\<close>

theorem stake_pool_queries_filters_pattern:
  "new_requests (getStakePools d owner) c =
     [GetProgramAccounts (ACCESS_PROGRAM_ID d)
        [\<lparr>offset = 0, bytes = ''2''\<rparr>, \<lparr>offset = 32, bytes = toBase58 owner\<rparr>]] \<and>
   map filter_pattern (getStakePools_filters owner) = [Some [1], Some (toBuffer owner)] \<and>
   list_all (memcmp account_data) (getStakePools_filters owner) =
     (take 1 account_data = [1] \<and>
      take (length (toBuffer owner)) (drop 32 account_data) = toBuffer owner) \<and>
   new_requests (getAllInactiveStakePools d) c =
     [GetProgramAccounts (ACCESS_PROGRAM_ID d) [\<lparr>offset = 0, bytes = ''3''\<rparr>]] \<and>
   map filter_pattern getAllInactiveStakePools_filters = [Some [2]] \<and>
   list_all (memcmp account_data) getAllInactiveStakePools_filters = (take 1 account_data = [2])"
  by (simp add: getStakePools_def getStakePools_filters_def getAllInactiveStakePools_def
      getAllInactiveStakePools_filters_def new_requests_getProgramAccounts
      filter_pattern_toBase58 filter_pattern_digits memcmp_toBase58 memcmp_digits)

text \<open>
  C4 as stated fails: the patterns at offset 0 are not the bytes 2 and 3. A pool account of
  the owner whose first byte is 2 does not pass \<open>getStakePools\<close>' filters, and an account
  whose first byte is 3 does not pass \<open>getAllInactiveStakePools\<close>' filter.
\<close>

theorem stake_pool_queries_discriminator_counterexample:
  "filter_pattern (getStakePools_filters (sample_key 1) ! 0) \<noteq> Some [2] \<and>
   filter_pattern (getAllInactiveStakePools_filters ! 0) \<noteq> Some [3] \<and>
   \<not> list_all (memcmp (2 # replicate 31 0 @ toBuffer (sample_key 1)))
        (getStakePools_filters (sample_key 1)) \<and>
   list_all (memcmp (1 # replicate 31 0 @ toBuffer (sample_key 1)))
        (getStakePools_filters (sample_key 1)) \<and>
   \<not> list_all (memcmp [3]) getAllInactiveStakePools_filters"
  by (simp add: getStakePools_filters_def getAllInactiveStakePools_filters_def
      filter_pattern_digits memcmp_toBase58 memcmp_digits)

text \<open>
  C9 (as amended). \<open>getAllStakePools\<close> sends one scan request with exactly one filter, the
  base-58 text \<open>2\<close> at offset 0, which is the byte 1: on an endpoint that answers, its
  result is the program's accounts whose first byte is 1. It never holds an account whose
  first byte is 2, the byte of \<open>getAllInactiveStakePools\<close>' pattern \<open>3\<close>, which a separate
  request has to fetch.
\<close>

theorem getAllStakePools_filters_pattern:
  "new_requests (getAllStakePools d) c =
     [GetProgramAccounts (ACCESS_PROGRAM_ID d) [\<lparr>offset = 0, bytes = ''2''\<rparr>]] \<and>
   map filter_pattern getAllStakePools_filters = [Some [1]] \<and>
   fst (getAllStakePools d c) =
     (case outage c (GetProgramAccounts (ACCESS_PROGRAM_ID d) getAllStakePools_filters) of
        Some e \<Rightarrow> Inl e
      | None \<Rightarrow>
          Inr (filter (\<lambda>(key, info). info_owner info = ACCESS_PROGRAM_ID d \<and>
                                     take 1 (info_data info) = [1]) (accounts c))) \<and>
   list_all (memcmp (2 # account_data)) getAllStakePools_filters = False \<and>
   map filter_pattern getAllInactiveStakePools_filters = [Some [2]] \<and>
   list_all (memcmp (2 # account_data)) getAllInactiveStakePools_filters = True"
  by (simp add: getAllStakePools_def getAllStakePools_filters_def
      getAllInactiveStakePools_filters_def new_requests_getProgramAccounts
      fst_getProgramAccounts programScan_valid filter_pattern_digits memcmp_digits
      split: option.split)

text \<open>
  C9 as stated fails: the filter does not match the byte 2. An account whose first byte is
  2 does not pass it; one whose first byte is 1 does.
\<close>

theorem getAllStakePools_discriminator_counterexample:
  "\<not> (length getAllStakePools_filters = 1 \<and>
      offset (getAllStakePools_filters ! 0) = 0 \<and>
      filter_pattern (getAllStakePools_filters ! 0) = Some [2]) \<and>
   \<not> list_all (memcmp [2]) getAllStakePools_filters \<and>
   list_all (memcmp [1]) getAllStakePools_filters"
  by (simp add: getAllStakePools_filters_def filter_pattern_digits memcmp_digits)


section \<open>The builders and the endpoint\<close>

lemma frame_returning: "frame m \<Longrightarrow> frame (returning wrap m)"
  unfolding returning_def by (intro frame_await frame_resolve)

lemma surfaces_returning:
  "frame m \<Longrightarrow> surfaces d m \<Longrightarrow> surfaces d (returning wrap m)"
  unfolding returning_def by (intro surfaces_await frame_resolve surfaces_resolve)

lemma new_requests_returning:
  "frame m \<Longrightarrow> new_requests (returning wrap m) c = new_requests m c"
  unfolding returning_def
  by (simp add: new_requests_await frame_resolve new_requests_resolve split: sum.split)

lemma query_scan:
  "\<exists>filters. query d q = returning ProgramAccounts (getProgramAccounts (ACCESS_PROGRAM_ID d) filters)"
  by (cases q)
    (auto simp: getStakeAccounts_def getStakePools_def getBondAccounts_def
      getAllStakePools_def getAllInactiveStakePools_def getAllInactiveBonds_def
      getAllActiveBonds_def)

lemma frame_query: "frame (query d q)"
  using query_scan [of d q] by (auto simp: frame_returning frame_getProgramAccounts)

lemma surfaces_query: "surfaces d (query d q)"
  using query_scan [of d q]
  by (auto simp: surfaces_returning frame_getProgramAccounts surfaces_getProgramAccounts)

lemma new_requests_query:
  "\<exists>filters. new_requests (query d q) c = [GetProgramAccounts (ACCESS_PROGRAM_ID d) filters]"
  using query_scan [of d q]
  by (auto simp: new_requests_returning frame_getProgramAccounts new_requests_getProgramAccounts)

lemma frame_invoke: "frame (invoke d op)"
  using disciplined_build [of d] by (cases op) (simp_all add: disciplined_def frame_query)

lemma surfaces_invoke: "surfaces d (invoke d op)"
  using disciplined_build [of d] by (cases op) (simp_all add: disciplined_def surfaces_query)

lemma claimBondRewards_first_failure:
  "fst (claimBondRewards d bondAccount rewardsDestination programId c) =
     (case fst (CentralState_retrieve d (fst (CentralState_getKey d programId)) c) of
        Inl e \<Rightarrow> Inl e
      | Inr centralState \<Rightarrow>
          (case fst (BondAccount_retrieve d bondAccount c) of
             Inl e \<Rightarrow> Inl e
           | Inr bond \<Rightarrow>
               Inr (getInstruction d claimBondRewardsInstruction programId
                      [BondAccount_stakePool bond, bondAccount, BondAccount_owner bond,
                       rewardsDestination, fst (CentralState_getKey d programId),
                       CentralState_tokenMint centralState, TOKEN_PROGRAM_ID d])))"
proof -
  let ?key = "fst (CentralState_getKey d programId)"
  have same: "fst (BondAccount_retrieve d bondAccount (snd (CentralState_retrieve d ?key c))) =
      fst (BondAccount_retrieve d bondAccount c)"
    unfolding BondAccount_retrieve_def CentralState_retrieve_def
    by (rule retrieve_cong) (simp_all add: frameD [OF frame_retrieve])
  show ?thesis
  proof (cases "fst (CentralState_retrieve d ?key c)")
    case (Inl e)
    then show ?thesis
      by (simp add: claimBondRewards_def Let_def await_Inl)
  next
    case (Inr centralState)
    show ?thesis
    proof (cases "fst (BondAccount_retrieve d bondAccount c)")
      case (Inl e)
      with Inr same show ?thesis
        by (simp add: claimBondRewards_def Let_def await_Inr await_Inl)
    next
      case bond: (Inr bond)
      with Inr same show ?thesis
        by (simp add: claimBondRewards_def Let_def await_Inr resolve_def)
    qed
  qed
qed

text \<open>
  C5 (as amended). Every operation, builder or query, that fails has raised exactly one
  error and fails with that error, unchanged: the error of a remote read or of a decode
  step on the last request it sent, or else the assertion of \<open>new BN\<close> on a numeric argument
  or the library's error for createStakePool's associated address. An operation that
  succeeds has raised no error. So no error is caught, retried, translated or wrapped
  (\<open>claimBondRewards_first_failure\<close> spells the result out for one builder).
\<close>

theorem errors_surface_unchanged:
  "raised (snd (invoke d op c)) = raised c @ failures (invoke d op) c \<and>
   (case fst (invoke d op c) of
      Inl e \<Rightarrow>
        (\<exists>s. failures (invoke d op) c = [(s, e)] \<and> step_error d c s = Some e \<and>
             on_last s (new_requests (invoke d op) c))
    | Inr v \<Rightarrow> failures (invoke d op) c = [])"
  using surfaces_invoke [of d op] by (simp add: surfaces_def)

text \<open>
  C5 as stated fails: a builder can fail with an error that no remote read or decode step
  raised. \<open>signBond\<close> with the seller index \<open>2^53\<close> fails with the assertion of \<open>new BN\<close>
  and has sent no request; \<open>changeInflation\<close> with the inflation \<open>2^53\<close> fails with it
  after its one read and decode succeeded.
\<close>

theorem errors_besides_read_and_decode_counterexample:
  "fst (invoke sample_deps
          (Builder (SignBond 9007199254740992 (sample_key 1) (sample_key 2) (sample_key 100)))
          sample_connection) = Inl (AssertionError ''Assertion failed'') \<and>
   new_requests
     (invoke sample_deps
        (Builder (SignBond 9007199254740992 (sample_key 1) (sample_key 2) (sample_key 100))))
     sample_connection = [] \<and>
   fst (CentralState_retrieve sample_deps (sample_key 50) sample_connection) =
     Inr \<lparr>CentralState_authority = sample_key 1, CentralState_tokenMint = sample_key 2\<rparr> \<and>
   new_requests
     (invoke sample_deps (Builder (ChangeInflation 9007199254740992 (sample_key 100))))
     sample_connection = [GetAccountInfo (sample_key 50)] \<and>
   fst (invoke sample_deps (Builder (ChangeInflation 9007199254740992 (sample_key 100)))
          sample_connection) = Inl (AssertionError ''Assertion failed'')"
  by code_simp

text \<open>
  C6. Two calls of a builder with the same arguments give the same result, instruction or
  error, on any two connections that answer alike the account reads the call makes.
\<close>

theorem builders_deterministic:
  assumes "\<forall>key. GetAccountInfo key \<in> set (new_requests (build d call) c1) \<longrightarrow>
             accountRead c1 key = accountRead c2 key"
  shows "fst (build d call c1) = fst (build d call c2)"
  using assms disciplined_build [of d call]
  by (simp add: disciplined_def read_determined_def)

theorem builders_deterministic_witness:
  "new_requests (build sample_deps (Stake (sample_key 70) (sample_key 9) 5 (sample_key 100)))
     sample_connection = [GetAccountInfo (sample_key 70), GetAccountInfo (sample_key 60)] \<and>
   accountRead sample_connection (sample_key 70) = accountRead busy_connection (sample_key 70) \<and>
   accountRead sample_connection (sample_key 60) = accountRead busy_connection (sample_key 60) \<and>
   accounts sample_connection \<noteq> accounts busy_connection \<and>
   fst (build sample_deps (Stake (sample_key 70) (sample_key 9) 5 (sample_key 100))
          sample_connection) =
   fst (build sample_deps (Stake (sample_key 70) (sample_key 9) 5 (sample_key 100))
          busy_connection)"
proof -
  let ?call = "Stake (sample_key 70) (sample_key 9) 5 (sample_key 100)"
  have reqs: "new_requests (build sample_deps ?call) sample_connection =
      [GetAccountInfo (sample_key 70), GetAccountInfo (sample_key 60)]"
    by code_simp
  have r70: "accountRead sample_connection (sample_key 70) =
      accountRead busy_connection (sample_key 70)"
    by code_simp
  have r60: "accountRead sample_connection (sample_key 60) =
      accountRead busy_connection (sample_key 60)"
    by code_simp
  have differ: "accounts sample_connection \<noteq> accounts busy_connection"
    by (simp add: busy_connection_def)
  have "\<forall>key. GetAccountInfo key \<in> set (new_requests (build sample_deps ?call) sample_connection)
      \<longrightarrow> accountRead sample_connection key = accountRead busy_connection key"
    unfolding reqs using r70 r60 by auto
  then have "fst (build sample_deps ?call sample_connection) =
      fst (build sample_deps ?call busy_connection)"
    by (rule builders_deterministic)
  with reqs r70 r60 differ show ?thesis by simp
qed

text \<open>
  C8. No operation changes the endpoint: after a call the accounts (and the endpoint's
  failures) are what they were, and the journal has grown by the requests of the call.
  A builder's requests are all reads of one account; a query's is one scan.
\<close>

theorem operations_only_read:
  "accounts (snd (invoke d op c)) = accounts c \<and>
   outage (snd (invoke d op c)) = outage c \<and>
   journal (snd (invoke d op c)) = journal c @ new_requests (invoke d op) c \<and>
   list_all is_account_read (new_requests (build d call) c) \<and>
   (\<exists>filters. new_requests (query d q) c = [GetProgramAccounts (ACCESS_PROGRAM_ID d) filters])"
  using frameD [OF frame_invoke, of d op c] disciplined_build [of d call]
    new_requests_query [of d q c]
  by (simp add: disciplined_def)

text \<open>
  C10. \<open>crank\<close> sends no request: it resolves, on every connection and leaving the
  connection as it is, to the instruction made of its two arguments and the central-state
  address derived from the program address.
\<close>

theorem crank_no_reads:
  "build d (Crank stakePoolAccount programId) c =
     (Inr (Instruction
        \<lparr>ix_programId = programId,
         ix_keys = [stakePoolAccount, fst (CentralState_getKey d programId)],
         ix_data = serialize d crankInstruction\<rparr>), c) \<and>
   new_requests (build d (Crank stakePoolAccount programId)) c = []"
  by (simp add: crank_def getInstruction_def Let_def new_requests_resolve) (simp add: resolve_def)

lemma builders_return_descriptors:
  assumes "fst (build d call c) = Inr v"
  shows "(\<exists>ix. v = Instruction ix) \<or> (\<exists>ixs. v = Instructions ixs) \<or>
         (\<exists>stakePoolAccount rewardsDestination programId.
            call = ClaimPoolRewards stakePoolAccount rewardsDestination programId)"
  using assms
  by (cases call)
    (auto simp: returning_def await_def resolve_def split: prod.splits sum.splits)

lemma claimPoolRewards_no_descriptor:
  "fst (build d (ClaimPoolRewards stakePoolAccount rewardsDestination programId) c) \<noteq>
     Inr (Instruction ix)"
  by (simp add: returning_def await_def resolve_def split: prod.splits sum.splits)

text \<open>
  C1. \<open>claimPoolRewards\<close>, on a connection where the central state and the stake pool
  both decode, resolves to no value: the instruction it builds is not returned. (The
  sibling \<open>claimRewards\<close> returns its instruction on the same connection.)
\<close>

theorem claimPoolRewards_returns_undefined:
  "fst (CentralState_retrieve sample_deps (fst (CentralState_getKey sample_deps (sample_key 100)))
          sample_connection) =
     Inr \<lparr>CentralState_authority = sample_key 1, CentralState_tokenMint = sample_key 2\<rparr> \<and>
   fst (StakePool_retrieve sample_deps (sample_key 60) sample_connection) =
     Inr \<lparr>StakePool_owner = sample_key 3, StakePool_vault = sample_key 4\<rparr> \<and>
   fst (build sample_deps (ClaimPoolRewards (sample_key 60) (sample_key 9) (sample_key 100))
          sample_connection) = Inr Undefined \<and>
   fst (build sample_deps (ClaimRewards (sample_key 70) (sample_key 9) (sample_key 100))
          sample_connection) =
     Inr (Instruction
       \<lparr>ix_programId = sample_key 100,
        ix_keys = [sample_key 60, sample_key 70, sample_key 5, sample_key 9, sample_key 50,
                   sample_key 2, sample_key 101],
        ix_data = []\<rparr>)"
  by code_simp

end
